theory Spec2Isabelle
  imports Main
begin

section \<open>Values shared by both source files\<close>

text \<open>
  The repository holds two generations of the copy stage: the plugin entry file
  (factory, \<open>apply\<close>, \<open>writeFileToAssets\<close>, \<open>writeDirectoryToAssets\<close>,
  \<open>shouldIgnore\<close>, \<open>toLooksLikeDirectory\<close>) and \<open>postProcessPattern.js\<close>.
  Each is embedded below as the code is written. Promises are modelled by their
  settled value: a rejection is an \<open>error\<close>, a fulfilment is the value.
\<close>

type_synonym path = string
type_synonym bytes = string

datatype error =
    Error string        \<comment> \<open>\<open>new Error(msg)\<close>, also what a user callback throws\<close>
  | TypeError string    \<comment> \<open>thrown by Node's \<open>path\<close> functions on a non-string\<close>
  | FsError string      \<comment> \<open>a rejected filesystem call, with its code (\<open>ENOENT\<close>, \<open>EACCES\<close>, ...)\<close>

section \<open>Node's \<open>path\<close> module, POSIX flavour\<close>

text \<open>
  The module is a library the code calls. The functions the code uses are written
  out here after Node's POSIX implementation, so that the embedding can be run on
  concrete paths. \<open>path.resolve\<close> and \<open>path.relative\<close> read the process's
  working directory, which is the parameter \<open>cwd\<close>.
\<close>

fun split_on :: "char \<Rightarrow> string \<Rightarrow> string list" where
  "split_on c [] = [[]]"
| "split_on c (x # xs) =
     (if x = c then [] # split_on c xs
      else (case split_on c xs of
              [] \<Rightarrow> [[x]]
            | s # ss \<Rightarrow> (x # s) # ss))"

fun join_with :: "char \<Rightarrow> string list \<Rightarrow> string" where
  "join_with c [] = []"
| "join_with c [s] = s"
| "join_with c (s # t # ss) = s @ c # join_with c (t # ss)"

text \<open>
  \<open>normalizeString\<close>: empty and \<open>.\<close> segments are dropped; \<open>..\<close> removes the
  segment before it, unless there is none or it is itself \<open>..\<close>, in which case it
  is kept only when going above the root is allowed. The accumulator holds the
  segments kept so far, last first.
\<close>

fun normalizeSegs :: "bool \<Rightarrow> string list \<Rightarrow> string list \<Rightarrow> string list" where
  "normalizeSegs allowAboveRoot [] acc = rev acc"
| "normalizeSegs allowAboveRoot (s # ss) acc =
     (if s = [] \<or> s = ''.'' then normalizeSegs allowAboveRoot ss acc
      else if s = ''..'' then
        (case acc of
           [] \<Rightarrow> normalizeSegs allowAboveRoot ss (if allowAboveRoot then [s] else [])
         | t # ts \<Rightarrow>
             if t \<noteq> ''..'' then normalizeSegs allowAboveRoot ss ts
             else normalizeSegs allowAboveRoot ss (if allowAboveRoot then s # acc else acc))
      else normalizeSegs allowAboveRoot ss (s # acc))"

definition normalizeString :: "string \<Rightarrow> bool \<Rightarrow> string" where
  "normalizeString p allowAboveRoot =
     join_with CHR ''/'' (normalizeSegs allowAboveRoot (split_on CHR ''/'' p) [])"

definition posix_normalize :: "path \<Rightarrow> path" where
  "posix_normalize p =
     (if p = [] then ''.''
      else
        let isAbsolute = (hd p = CHR ''/'');
            trailingSeparator = (last p = CHR ''/'');
            q = normalizeString p (\<not> isAbsolute)
        in if q = [] then (if isAbsolute then ''/'' else if trailingSeparator then ''./'' else ''.'')
           else (let q' = (if trailingSeparator then q @ ''/'' else q)
                 in if isAbsolute then CHR ''/'' # q' else q'))"

definition posix_join :: "path \<Rightarrow> path \<Rightarrow> path" where
  "posix_join a b =
     (if a = [] \<and> b = [] then ''.''
      else if a = [] then posix_normalize b
      else if b = [] then posix_normalize a
      else posix_normalize (a @ CHR ''/'' # b))"

text \<open>
  \<open>path.resolve\<close> walks its arguments from the right, then the working directory,
  until the path built so far is absolute.
\<close>

fun resolve_walk :: "path list \<Rightarrow> path \<Rightarrow> path \<times> bool" where
  "resolve_walk [] acc = (acc, False)"
| "resolve_walk (p # ps) acc =
     (if p = [] then resolve_walk ps acc
      else if hd p = CHR ''/'' then (p @ CHR ''/'' # acc, True)
      else resolve_walk ps (p @ CHR ''/'' # acc))"

definition posix_resolve_list :: "path \<Rightarrow> path list \<Rightarrow> path" where
  "posix_resolve_list cwd args =
     (case resolve_walk (rev args @ [cwd]) [] of
        (resolvedPath, resolvedAbsolute) \<Rightarrow>
          let n = normalizeString resolvedPath (\<not> resolvedAbsolute)
          in if resolvedAbsolute then CHR ''/'' # n
             else if n \<noteq> [] then n else ''.'')"

definition posix_resolve :: "path \<Rightarrow> path \<Rightarrow> path \<Rightarrow> path" where
  "posix_resolve cwd a b = posix_resolve_list cwd [a, b]"

text \<open>
  \<open>path.relative\<close> resolves both paths and compares them segment by segment: one
  \<open>..\<close> for each segment of \<open>from\<close> after the common prefix, then what is left of
  \<open>to\<close>.
\<close>

fun drop_common :: "string list \<Rightarrow> string list \<Rightarrow> string list \<times> string list" where
  "drop_common (x # xs) (y # ys) = (if x = y then drop_common xs ys else (x # xs, y # ys))"
| "drop_common xs ys = (xs, ys)"

definition abs_segments :: "path \<Rightarrow> string list" where
  "abs_segments p = filter (\<lambda>s. s \<noteq> []) (split_on CHR ''/'' p)"

definition posix_relative :: "path \<Rightarrow> path \<Rightarrow> path \<Rightarrow> path" where
  "posix_relative cwd from_p to_p =
     (if from_p = to_p then []
      else
        let f = posix_resolve_list cwd [from_p];
            t = posix_resolve_list cwd [to_p]
        in if f = t then []
           else (case drop_common (abs_segments f) (abs_segments t) of
                   (fs, ts) \<Rightarrow> join_with CHR ''/'' (map (\<lambda>_. ''..'') fs @ ts)))"

text \<open>
  \<open>path.basename\<close> (one argument): the last segment, trailing slashes ignored.
\<close>

definition posix_basename :: "path \<Rightarrow> string" where
  "posix_basename p =
     rev (takeWhile (\<lambda>c. c \<noteq> CHR ''/'') (dropWhile (\<lambda>c. c = CHR ''/'') (rev p)))"

text \<open>
  \<open>path.dirname\<close>: what stands before the last slash that is not a trailing one;
  the character at index 0 is never taken for that slash.
\<close>

definition posix_dirname :: "path \<Rightarrow> path" where
  "posix_dirname p =
     (case p of
        [] \<Rightarrow> ''.''
      | c # body \<Rightarrow>
          let hasRoot = (c = CHR ''/'');
              r = dropWhile (\<lambda>x. x \<noteq> CHR ''/'') (dropWhile (\<lambda>x. x = CHR ''/'') (rev body))
          in (case r of
                [] \<Rightarrow> if hasRoot then ''/'' else ''.''
              | _ # rest \<Rightarrow> if hasRoot \<and> rest = [] then ''//'' else c # rev rest))"

text \<open>
  \<open>path.extname\<close>: from the last dot of the last segment to its end; empty when
  that segment has no dot, starts with its only dot, or is \<open>..\<close>.
\<close>

definition posix_extname :: "path \<Rightarrow> string" where
  "posix_extname p =
     (let b = posix_basename p;
          afterDot = takeWhile (\<lambda>c. c \<noteq> CHR ''.'') (rev b);
          upToDot = dropWhile (\<lambda>c. c \<noteq> CHR ''.'') (rev b)
      in if upToDot = [] \<or> tl upToDot = [] \<or> b = ''..'' then []
         else CHR ''.'' # rev afterDot)"

section \<open>The plugin entry file\<close>

subsection \<open>Collaborators and state\<close>

record fstat =
  isDirectory :: bool
  stat_size :: nat
  mtime :: int   \<comment> \<open>\<open>stat.mtime.getTime()\<close>, milliseconds\<close>

text \<open>
  Everything the entry file requires from outside: Node's \<open>path\<close> and \<open>os\<close>,
  \<open>fs-extra\<close>, \<open>node-dir\<close>, \<open>glob\<close>, \<open>minimatch\<close> (called with
  \<open>matchBase\<close> and \<open>dot\<close> set) and lodash's clock. The filesystem is read through
  functions that stay fixed during a pass.
\<close>

record env =
  path_sep :: char
  path_extname :: "path \<Rightarrow> string"
  path_basename :: "path \<Rightarrow> string"
  path_dirname :: "path \<Rightarrow> path"
  path_join :: "path \<Rightarrow> path \<Rightarrow> path"
  path_relative :: "path \<Rightarrow> path \<Rightarrow> path"
  path_resolve :: "path \<Rightarrow> path \<Rightarrow> path"
  os_platform :: string
  fs_statAsync :: "path \<Rightarrow> error + fstat"
  fs_copyAsync :: "path \<Rightarrow> path \<Rightarrow> error option"   \<comment> \<open>\<open>Some e\<close>: the copy rejects with \<open>e\<close>\<close>
  globAsync :: "string \<Rightarrow> path \<Rightarrow> error + path list"  \<comment> \<open>pattern, then \<open>cwd\<close>\<close>
  dir_filesAsync :: "path \<Rightarrow> error + path list"
  minimatch :: "string \<Rightarrow> string \<Rightarrow> bool"             \<comment> \<open>path, then glob\<close>
  now :: int

definition posix_env :: "path \<Rightarrow> (path \<Rightarrow> error + fstat) \<Rightarrow> (path \<Rightarrow> path \<Rightarrow> error option) \<Rightarrow>
    (string \<Rightarrow> path \<Rightarrow> error + path list) \<Rightarrow> (path \<Rightarrow> error + path list) \<Rightarrow>
    (string \<Rightarrow> string \<Rightarrow> bool) \<Rightarrow> int \<Rightarrow> env" where
  "posix_env cwd st cp gl df mm t =
     \<lparr> path_sep = CHR ''/'', path_extname = posix_extname, path_basename = posix_basename,
       path_dirname = posix_dirname, path_join = posix_join,
       path_relative = posix_relative cwd, path_resolve = posix_resolve cwd,
       os_platform = ''linux'', fs_statAsync = st, fs_copyAsync = cp, globAsync = gl,
       dir_filesAsync = df, minimatch = mm, now = t \<rparr>"

record pattern =
  pattern_from :: string
  pattern_to :: "string option"       \<comment> \<open>\<open>None\<close>: the field is undefined\<close>
  pattern_toType :: "string option"
  pattern_force :: bool               \<comment> \<open>the truthiness of \<open>pattern.force\<close>\<close>

text \<open>
  \<open>compilation.assets\<close> is a plain object of the host. A lookup
  \<open>compilation.assets[key]\<close> finds the object's own properties, which are the
  entries of the asset table, and what the object inherits: the properties of
  \<open>Object.prototype\<close> and, once an assignment to the key \<open>__proto__\<close> has put an
  entry in the place of the prototype, the two properties of that entry. Every
  value found is an object or a function, hence truthy. An assignment creates or
  replaces an own property, except under the key \<open>__proto__\<close>, where it replaces
  the prototype.
\<close>

record asset =
  asset_size :: nat       \<comment> \<open>what \<open>size()\<close> returns\<close>
  asset_source :: path    \<comment> \<open>\<open>source()\<close> reads this file when called\<close>

record state =
  assets :: "string \<rightharpoonup> asset"            \<comment> \<open>the own properties of \<open>compilation.assets\<close>\<close>
  assets_proto :: "asset option"           \<comment> \<open>the entry assigned to \<open>__proto__\<close>, if any\<close>
  errors :: "error list"                   \<comment> \<open>\<open>compilation.errors\<close>\<close>
  fileDependencies :: "path list"
  contextDependencies :: "path list"
  lastGlobalUpdate :: int
  copies :: "(path \<times> path) list"         \<comment> \<open>the \<open>fs.copyAsync\<close> calls issued, in order\<close>

definition objectPrototypeKeys :: "string list" where
  "objectPrototypeKeys =
     [''constructor'', ''__defineGetter__'', ''__defineSetter__'', ''hasOwnProperty'',
      ''__lookupGetter__'', ''__lookupSetter__'', ''isPrototypeOf'', ''propertyIsEnumerable'',
      ''toString'', ''valueOf'', ''__proto__'', ''toLocaleString'']"

definition assets_truthy :: "state \<Rightarrow> string \<Rightarrow> bool" where
  \<comment> \<open>the truthiness of \<open>compilation.assets[key]\<close>\<close>
  "assets_truthy s key \<longleftrightarrow>
     assets s key \<noteq> None \<or> key \<in> set objectPrototypeKeys \<or>
     (assets_proto s \<noteq> None \<and> (key = ''size'' \<or> key = ''source''))"

definition assets_assign :: "string \<Rightarrow> asset \<Rightarrow> state \<Rightarrow> state" where
  \<comment> \<open>\<open>compilation.assets[key] = entry\<close>\<close>
  "assets_assign key entry s =
     (if key = ''__proto__'' then s\<lparr>assets_proto := Some entry\<rparr>
      else s\<lparr>assets := (assets s)(key \<mapsto> entry)\<rparr>)"

subsection \<open>\<open>shouldIgnore\<close>\<close>

text \<open>
  \<open>_.find\<close> returns the first glob the matcher accepts, or undefined (also for an
  undefined list); the result is then tested for truthiness, and the empty string
  is falsy.
\<close>

definition shouldIgnore :: "(string \<Rightarrow> string \<Rightarrow> bool) \<Rightarrow> string \<Rightarrow> string list option \<Rightarrow> bool" where
  "shouldIgnore mm pathName ignoreList =
     (case find (\<lambda>glob. mm pathName glob) (case ignoreList of None \<Rightarrow> [] | Some l \<Rightarrow> l) of
        None \<Rightarrow> False
      | Some matched \<Rightarrow> matched \<noteq> [])"

text \<open>
  A matcher for the examples: it agrees with minimatch (\<open>matchBase\<close> set) on globs
  without wildcard characters, where a glob matches the path or its base name, and
  the empty glob matches the empty path only.
\<close>

definition minimatch_literal :: "string \<Rightarrow> string \<Rightarrow> bool" where
  "minimatch_literal p g = (if g = [] then p = [] else g = p \<or> g = posix_basename p)"

subsection \<open>\<open>toLooksLikeDirectory\<close>\<close>

text \<open>
  \<open>path.extname\<close> is evaluated first and throws a TypeError when \<open>pattern.to\<close> is
  undefined (Node 6 and later; the theorems below never take that branch). The
  function returns true or undefined; callers test its truthiness.
\<close>

definition js_last :: "string \<Rightarrow> char option" where
  "js_last s = (if s = [] then None else Some (last s))"

definition toLooksLikeDirectory :: "env \<Rightarrow> pattern \<Rightarrow> error + bool" where
  "toLooksLikeDirectory e pat =
     (case pattern_to pat of
        None \<Rightarrow> Inl (TypeError ''The \"path\" argument must be of type string'')
      | Some filename \<Rightarrow>
          Inr ((path_extname e filename = []
                \<or> js_last filename = Some (path_sep e)
                \<or> js_last filename = Some CHR ''/''
                \<or> pattern_toType pat = Some ''dir'')
               \<and> pattern_toType pat \<noteq> Some ''file''))"

subsection \<open>The factory (\<open>module.exports\<close>)\<close>

datatype 'a js_arg =
    JUndefined
  | JNull
  | JArray "'a list"
  | JString string
  | JNumber int
  | JBool bool
  | JObject

fun isArray :: "'a js_arg \<Rightarrow> bool" where
  "isArray (JArray _) = True"
| "isArray _ = False"

record options =
  opt_ignore :: "string list option"

text \<open>The plugin object: \<open>apply\<close> bound to the patterns and the options.\<close>

record plugin =
  plugin_patterns :: "pattern list"
  plugin_options :: "options option"

definition copyWebpackPlugin :: "pattern js_arg \<Rightarrow> options option \<Rightarrow> error + plugin" where
  "copyWebpackPlugin patterns opts =
     (let patterns' = (if patterns = JUndefined then JArray [] else patterns)
      in (case patterns' of
            JArray ps \<Rightarrow> Inr \<lparr> plugin_patterns = ps, plugin_options = opts \<rparr>
          | _ \<Rightarrow> Inl (Error ''CopyWebpackPlugin: patterns must be an array'')))"

subsection \<open>\<open>writeFileToAssets\<close>\<close>

text \<open>
  Every function below returns the settled promise (\<open>None\<close>: fulfilled,
  \<open>Some e\<close>: rejected with \<open>e\<close>) and the state it leaves.
\<close>

definition writeFileToAssets :: "env \<Rightarrow> string \<Rightarrow> path \<Rightarrow> bool \<Rightarrow> int \<Rightarrow> state \<Rightarrow> error option \<times> state" where
  "writeFileToAssets e relFileDest absFileSrc forceWrite lastUpdate s =
     (if assets_truthy s relFileDest \<and> \<not> forceWrite then (None, s)
      else (case fs_statAsync e absFileSrc of
              Inl err \<Rightarrow> (Some err, s)
            | Inr stat \<Rightarrow>
                if mtime stat > lastUpdate
                then (None, assets_assign relFileDest
                              \<lparr> asset_size = stat_size stat, asset_source = absFileSrc \<rparr> s)
                else (None, s)))"

text \<open>
  Bluebird's \<open>.each\<close>: the callback runs on the items one after the other, each
  waiting for the promise of the one before; the first rejection ends the loop.
\<close>

fun each :: "('a \<Rightarrow> state \<Rightarrow> error option \<times> state) \<Rightarrow> 'a list \<Rightarrow> state \<Rightarrow> error option \<times> state" where
  "each f [] s = (None, s)"
| "each f (x # xs) s =
     (case f x s of
        (Some err, s') \<Rightarrow> (Some err, s')
      | (None, s') \<Rightarrow> each f xs s')"

subsection \<open>\<open>writeDirectoryToAssets\<close>\<close>

definition js_first :: "string \<Rightarrow> char option" where
  "js_first s = (case s of [] \<Rightarrow> None | c # _ \<Rightarrow> Some c)"

definition writeDirectoryFile :: "env \<Rightarrow> path \<Rightarrow> string \<Rightarrow> bool \<Rightarrow> int \<Rightarrow> string list option \<Rightarrow>
    path \<Rightarrow> state \<Rightarrow> error option \<times> state" where
  "writeDirectoryFile e absDirSrc relDirDest forceWrite lastUpdate ignoreList absFileSrc s =
     (let relFileSrc = path_relative e absDirSrc absFileSrc;
          relFileDest = path_join e relDirDest relFileSrc
      in if shouldIgnore (minimatch e) relFileSrc ignoreList then (None, s)
         else writeFileToAssets e
                (if js_first relFileDest = Some (path_sep e) then tl relFileDest else relFileDest)
                absFileSrc forceWrite lastUpdate s)"

definition writeDirectoryToAssets :: "env \<Rightarrow> path \<Rightarrow> string \<Rightarrow> bool \<Rightarrow> int \<Rightarrow> string list option \<Rightarrow>
    state \<Rightarrow> error option \<times> state" where
  "writeDirectoryToAssets e absDirSrc relDirDest forceWrite lastUpdate ignoreList s =
     (case dir_filesAsync e absDirSrc of
        Inl err \<Rightarrow> (Some err, s)
      | Inr files \<Rightarrow>
          each (writeDirectoryFile e absDirSrc relDirDest forceWrite lastUpdate ignoreList) files s)"

subsection \<open>\<open>apply\<close>: the emit handler\<close>

text \<open>
  The destination counts as absolute when, on \<open>win32\<close>, it matches
  \<open>/^[A-z]:\\\\/\<close> (a character from \<open>A\<close> to \<open>z\<close>, a colon, two backslashes) and,
  elsewhere, when its first character is a slash.
\<close>

definition winRootMatcher :: "string \<Rightarrow> bool" where
  "winRootMatcher s =
     (case s of
        c0 # c1 # c2 # c3 # _ \<Rightarrow>
          (65::nat) \<le> of_char c0 \<and> (of_char c0 :: nat) \<le> 122 \<and> c1 = CHR '':'' \<and>
          c2 = CHR 0x5C \<and> c3 = CHR 0x5C
      | _ \<Rightarrow> False)"

definition absDest_of :: "env \<Rightarrow> string \<Rightarrow> string option" where
  "absDest_of e relDest =
     (if os_platform e = ''win32''
      then (if winRootMatcher relDest then Some relDest else None)
      else (if js_first relDest = Some CHR ''/'' then Some relDest else None))"

definition to_or_empty :: "pattern \<Rightarrow> string" where
  \<comment> \<open>\<open>pattern.to || ''\<close>\<close>
  "to_or_empty pat = (case pattern_to pat of None \<Rightarrow> [] | Some t \<Rightarrow> t)"

definition fs_copy :: "env \<Rightarrow> path \<Rightarrow> path \<Rightarrow> state \<Rightarrow> error option \<times> state" where
  "fs_copy e src dest s = (fs_copyAsync e src dest, s\<lparr>copies := copies s @ [(src, dest)]\<rparr>)"

text \<open>The callback of the glob's \<open>.each\<close>; \<open>stat\<close> is \<open>None\<close> when it is null.\<close>

definition globFile :: "env \<Rightarrow> string list option \<Rightarrow> path \<Rightarrow> pattern \<Rightarrow> fstat option \<Rightarrow>
    path \<Rightarrow> state \<Rightarrow> error option \<times> state" where
  "globFile e ignoreList baseDir pat stat relFileSrc s =
     (if shouldIgnore (minimatch e) relFileSrc ignoreList then (None, s)
      else
        let absFileSrc = path_resolve e baseDir relFileSrc;
            relFileDest = to_or_empty pat;
            relFileDirname = path_dirname e relFileSrc;
            s1 = s\<lparr>fileDependencies := fileDependencies s @ [absFileSrc]\<rparr>
        in (case absDest_of e (to_or_empty pat) of
              Some absDest \<Rightarrow>
                (case toLooksLikeDirectory e pat of
                   Inl err \<Rightarrow> (Some err, s1)
                 | Inr dirLike \<Rightarrow>
                     fs_copy e absFileSrc
                       (if dirLike then path_join e absDest (path_basename e absFileSrc) else absDest)
                       s1)
            | None \<Rightarrow>
                if stat = None \<and> relFileDirname \<noteq> baseDir
                then writeFileToAssets e
                       (path_join e (path_relative e baseDir relFileDirname) (path_basename e relFileSrc))
                       absFileSrc (pattern_force pat) (lastGlobalUpdate s1) s1
                else (case toLooksLikeDirectory e pat of
                        Inl err \<Rightarrow> (Some err, s1)
                      | Inr dirLike \<Rightarrow>
                          writeFileToAssets e
                            (if dirLike then path_join e relFileDest (path_basename e relFileSrc)
                             else if relFileDest \<noteq> [] then relFileDest
                             else path_basename e relFileSrc)
                            absFileSrc (pattern_force pat) (lastGlobalUpdate s1) s1)))"

text \<open>
  One pattern. A rejected \<open>fs.statAsync\<close> is caught, whatever the error, and
  replaced by null.
\<close>

definition statOrNull :: "env \<Rightarrow> path \<Rightarrow> fstat option" where
  "statOrNull e p = (case fs_statAsync e p of Inl err \<Rightarrow> None | Inr st \<Rightarrow> Some st)"

definition globBranch :: "env \<Rightarrow> string list option \<Rightarrow> path \<Rightarrow> pattern \<Rightarrow> fstat option \<Rightarrow>
    state \<Rightarrow> error option \<times> state" where
  "globBranch e ignoreList baseDir pat stat s =
     (case globAsync e (pattern_from pat) baseDir of
        Inl err \<Rightarrow> (Some err, s)
      | Inr matches \<Rightarrow> each (globFile e ignoreList baseDir pat stat) matches s)"

definition processPattern :: "env \<Rightarrow> string list option \<Rightarrow> path \<Rightarrow> pattern \<Rightarrow> state \<Rightarrow> error option \<times> state" where
  "processPattern e ignoreList baseDir pat s =
     (let relSrc = pattern_from pat;
          absSrc = path_resolve e baseDir relSrc;
          relDest = to_or_empty pat;
          absDest = absDest_of e relDest;
          stat = statOrNull e absSrc
      in if (case stat of None \<Rightarrow> False | Some st \<Rightarrow> isDirectory st)
         then
           (let s1 = s\<lparr>contextDependencies := contextDependencies s @ [absSrc]\<rparr>
            in (case absDest of
                  None \<Rightarrow> writeDirectoryToAssets e absSrc relDest (pattern_force pat)
                            (lastGlobalUpdate s1) ignoreList s1
                | Some d \<Rightarrow>
                    (case toLooksLikeDirectory e pat of
                       Inl err \<Rightarrow> (Some err, s1)
                     | Inr dirLike \<Rightarrow>
                         if dirLike then fs_copy e absSrc d s1
                         else writeDirectoryToAssets e absSrc relDest (pattern_force pat)
                                (lastGlobalUpdate s1) ignoreList s1)))
         else globBranch e ignoreList baseDir pat stat s)"

text \<open>
  The emit handler: the patterns in order; when all are done the clock is
  recorded, and a rejection is pushed onto \<open>compilation.errors\<close> instead.
\<close>

definition ignoreList_of :: "options option \<Rightarrow> string list option" where
  "ignoreList_of opts = (case opts of None \<Rightarrow> None | Some os \<Rightarrow> opt_ignore os)"

definition emit :: "env \<Rightarrow> pattern list \<Rightarrow> options option \<Rightarrow> path \<Rightarrow> state \<Rightarrow> state" where
  "emit e patterns opts baseDir s =
     (case each (processPattern e (ignoreList_of opts) baseDir) patterns s of
        (None, s') \<Rightarrow> s'\<lparr>lastGlobalUpdate := now e\<rparr>
      | (Some err, s') \<Rightarrow> s'\<lparr>errors := errors s' @ [err]\<rparr>)"

text \<open>
  What \<open>plugin.apply(compiler)\<close> registers for the emit event: the handler above on
  the bound patterns and options, with \<open>compiler.options.context\<close> for base directory.
\<close>

definition apply_emit :: "env \<Rightarrow> plugin \<Rightarrow> path \<Rightarrow> state \<Rightarrow> state" where
  "apply_emit e pl baseDir s = emit e (plugin_patterns pl) (plugin_options pl) baseDir s"

section \<open>\<open>postProcessPattern.js\<close>\<close>

subsection \<open>Collaborators and state\<close>

text \<open>
  The pattern and the file as \<open>postProcessPattern\<close> reads them. A user callback
  (\<open>transform\<close>, \<open>transformPath\<close>) returns its value or the error it throws or
  rejects with.
\<close>

record ppattern =
  pp_stats :: "fstat option"                                     \<comment> \<open>\<open>pattern.stats\<close>\<close>
  pp_fromType :: string
  pp_transform :: "(bytes \<Rightarrow> path \<Rightarrow> error + bytes) option"
  pp_cache :: "string option option"
    \<comment> \<open>\<open>None\<close>: falsy; \<open>Some None\<close>: enabled without a key; \<open>Some (Some k)\<close>: \<open>cache.key\<close> is \<open>k\<close>\<close>
  pp_toType :: "string option"
  pp_context :: path
  pp_transformPath :: "(string \<Rightarrow> path \<Rightarrow> error + string) option"

record resolved_file =
  absoluteFrom :: path
  relativeFrom :: path
  webpackTo :: string
  force :: bool
  webpackToRegExp :: "string option"

text \<open>
  What the function imports: the promisified \<open>stat\<close> and \<open>readFile\<close> of the input
  filesystem, \<open>find-cache-dir\<close>, \<open>os.tmpdir\<close>, \<open>serialize-javascript\<close> applied
  to the package's name and version, the pattern and the md4 digest, the \<open>put\<close> of
  \<open>cacache\<close> (which may reject), \<open>loader-utils\<close>, \<open>path\<close> and
  \<open>normalize-path\<close>. Calls of the logger are left out.
\<close>

record collab =
  stat :: "path \<Rightarrow> error + fstat"
  readFile :: "path \<Rightarrow> error + bytes"
  findCacheDir :: "string option"
  os_tmpdir :: string
  serialize :: "ppattern \<Rightarrow> string \<Rightarrow> string"
  md4_hex :: "bytes \<Rightarrow> string"
  cacache_put_error :: "path \<Rightarrow> string \<Rightarrow> bytes \<Rightarrow> error option"
  getHashDigest :: "bytes \<Rightarrow> string"
  p_extname :: "path \<Rightarrow> string"
  p_normalize :: "path \<Rightarrow> path"
  normalizePath :: "path \<Rightarrow> path"
  interpolateName :: "path \<Rightarrow> string \<Rightarrow> bytes \<Rightarrow> string option \<Rightarrow> path \<Rightarrow> error + string"

record passet =
  p_size :: nat        \<comment> \<open>what \<open>size()\<close> returns\<close>
  p_source :: bytes    \<comment> \<open>what \<open>source()\<close> returns\<close>

text \<open>
  \<open>globalRef\<close> with the compilation's asset table, followed by the two things
  outside it that the function changes: the store of \<open>cacache\<close> (directory and
  key to bytes) and the calls made to \<open>pattern.transform\<close>, in order.
\<close>

record globalRef =
  compilation_assets :: "string \<rightharpoonup> passet"
  fileDeps :: "path set"
  written :: "string \<rightharpoonup> (path \<rightharpoonup> string)"
  cacheDir :: "string option"
  copyUnmodified :: bool
  cacache_store :: "(path \<times> string) \<rightharpoonup> bytes"
  transform_calls :: "(bytes \<times> path) list"

subsection \<open>The stages of the promise chain\<close>

definition getStats :: "collab \<Rightarrow> ppattern \<Rightarrow> resolved_file \<Rightarrow> error + fstat" where
  "getStats c pat f = (case pp_stats pat of Some st \<Rightarrow> Inr st | None \<Rightarrow> stat c (absoluteFrom f))"

definition or_else :: "string option \<Rightarrow> string \<Rightarrow> string" where
  \<comment> \<open>\<open>a || b\<close> on strings: undefined and the empty string are falsy\<close>
  "or_else v d = (case v of None \<Rightarrow> d | Some x \<Rightarrow> if x = [] then d else x)"

definition cacheDir_resolved :: "collab \<Rightarrow> globalRef \<Rightarrow> string" where
  \<comment> \<open>\<open>globalRef.cacheDir\<close> after the assignment guarded by \<open>!globalRef.cacheDir\<close>\<close>
  "cacheDir_resolved c g = or_else (cacheDir g) (or_else (findCacheDir c) (os_tmpdir c))"

definition cacheKey_of :: "collab \<Rightarrow> ppattern \<Rightarrow> bytes \<Rightarrow> string" where
  "cacheKey_of c pat content =
     (case pp_cache pat of
        Some (Some k) \<Rightarrow> if k \<noteq> [] then k else serialize c pat (md4_hex c content)
      | _ \<Rightarrow> serialize c pat (md4_hex c content))"

definition callTransform :: "(bytes \<Rightarrow> path \<Rightarrow> error + bytes) \<Rightarrow> bytes \<Rightarrow> path \<Rightarrow> globalRef \<Rightarrow>
    (error + bytes) \<times> globalRef" where
  "callTransform t content absFrom g =
     (t content absFrom, g\<lparr>transform_calls := transform_calls g @ [(content, absFrom)]\<rparr>)"

text \<open>The first \<open>then\<close> after \<open>readFile\<close>: transform, through the cache if enabled.\<close>

definition transformContent :: "collab \<Rightarrow> ppattern \<Rightarrow> resolved_file \<Rightarrow> bytes \<Rightarrow> globalRef \<Rightarrow>
    (error + bytes) \<times> globalRef" where
  "transformContent c pat f content g =
     (case pp_transform pat of
        None \<Rightarrow> (Inr content, g)
      | Some t \<Rightarrow>
          (case pp_cache pat of
             None \<Rightarrow> callTransform t content (absoluteFrom f) g
           | Some _ \<Rightarrow>
               let dir = cacheDir_resolved c g;
                   g1 = g\<lparr>cacheDir := Some dir\<rparr>;
                   cacheKey = cacheKey_of c pat content
               in (case cacache_store g1 (dir, cacheKey) of
                     Some data \<Rightarrow> (Inr data, g1)
                   | None \<Rightarrow>
                       (case callTransform t content (absoluteFrom f) g1 of
                          (Inl err, g2) \<Rightarrow> (Inl err, g2)
                        | (Inr content', g2) \<Rightarrow>
                            (case cacache_put_error c dir cacheKey content' of
                               Some err \<Rightarrow> (Inl err, g2)
                             | None \<Rightarrow>
                                 (Inr content',
                                  g2\<lparr>cacache_store :=
                                       (cacache_store g2)((dir, cacheKey) \<mapsto> content')\<rparr>))))))"

text \<open>\<open>webpackTo.replace(/\.?\[ext\]/g, '')\<close>\<close>

function removeExtToken :: "string \<Rightarrow> string" where
  "removeExtToken s =
     (if s = [] then []
      else if take 6 s = ''.[ext]'' then removeExtToken (drop 6 s)
      else if take 5 s = ''[ext]'' then removeExtToken (drop 5 s)
      else hd s # removeExtToken (tl s))"
  by pat_completeness auto
termination
  by (relation "measure length") auto

text \<open>The second \<open>then\<close>: template interpolation of the destination.\<close>

definition interpolateTemplate :: "collab \<Rightarrow> ppattern \<Rightarrow> resolved_file \<Rightarrow> bytes \<Rightarrow> error + string" where
  "interpolateTemplate c pat f content =
     (if pp_toType pat = Some ''template''
      then
        (let to1 = (if p_extname c (relativeFrom f) = [] then removeExtToken (webpackTo f)
                    else webpackTo f)
         in (case interpolateName c (absoluteFrom f) to1 content (webpackToRegExp f) (pp_context pat) of
               Inl err \<Rightarrow> Inl err
             | Inr name \<Rightarrow> Inr (p_normalize c name)))
      else Inr (webpackTo f))"

text \<open>The third \<open>then\<close>: the user's path transform.\<close>

definition applyTransformPath :: "collab \<Rightarrow> ppattern \<Rightarrow> resolved_file \<Rightarrow> string \<Rightarrow> error + string" where
  "applyTransformPath c pat f to1 =
     (case pp_transformPath pat of
        None \<Rightarrow> Inr to1
      | Some tp \<Rightarrow>
          (case tp to1 (absoluteFrom f) of
             Inl err \<Rightarrow> Inl err
           | Inr newPath \<Rightarrow> Inr (p_normalize c newPath)))"

text \<open>
  The last \<open>then\<close>: the write decision. \<open>historyHas\<close> is the conjunction
  \<open>written[to] && written[to][from] && written[to][from] === hash\<close>.
\<close>

definition historyHas :: "(string \<rightharpoonup> (path \<rightharpoonup> string)) \<Rightarrow> string \<Rightarrow> path \<Rightarrow> string \<Rightarrow> bool" where
  "historyHas w to1 absFrom hash =
     (case w to1 of
        None \<Rightarrow> False
      | Some m \<Rightarrow> (case m absFrom of None \<Rightarrow> False | Some h \<Rightarrow> h \<noteq> [] \<and> h = hash))"

definition writeDecision :: "collab \<Rightarrow> resolved_file \<Rightarrow> fstat \<Rightarrow> string \<Rightarrow> bytes \<Rightarrow> globalRef \<Rightarrow> globalRef" where
  "writeDecision c f stats to1 content g =
     (let hash = getHashDigest c content
      in if \<not> copyUnmodified g \<and> historyHas (written g) to1 (absoluteFrom f) hash then g
         else
           let g1 = g\<lparr>written := (written g)(to1 \<mapsto>
                        (case written g to1 of None \<Rightarrow> Map.empty | Some m \<Rightarrow> m)
                          (absoluteFrom f \<mapsto> hash))\<rparr>;
               assetFilename = normalizePath c to1
           in if compilation_assets g1 assetFilename \<noteq> None \<and> \<not> force f then g1
              else g1\<lparr>compilation_assets := (compilation_assets g1)(assetFilename \<mapsto>
                        \<lparr> p_size = stat_size stats, p_source = content \<rparr>)\<rparr>)"

subsection \<open>\<open>postProcessPattern\<close>\<close>

text \<open>
  Everything before the write decision: stat, read, transform, template and path
  transform. A directory is skipped; otherwise the stage ends with the stats, the
  final destination and the final content.
\<close>

datatype resolution = Skipped | Resolved fstat string bytes

definition contentPipeline :: "collab \<Rightarrow> ppattern \<Rightarrow> resolved_file \<Rightarrow> globalRef \<Rightarrow> (error + resolution) \<times> globalRef" where
  "contentPipeline c pat f g =
     (case getStats c pat f of
        Inl err \<Rightarrow> (Inl err, g)
      | Inr stats \<Rightarrow>
          if isDirectory stats then (Inr Skipped, g)
          else
            let g1 = (if pp_fromType pat = ''glob''
                      then g\<lparr>fileDeps := insert (absoluteFrom f) (fileDeps g)\<rparr> else g)
            in (case readFile c (absoluteFrom f) of
                  Inl err \<Rightarrow> (Inl err, g1)
                | Inr content \<Rightarrow>
                    (case transformContent c pat f content g1 of
                       (Inl err, g2) \<Rightarrow> (Inl err, g2)
                     | (Inr content', g2) \<Rightarrow>
                         (case interpolateTemplate c pat f content' of
                            Inl err \<Rightarrow> (Inl err, g2)
                          | Inr to1 \<Rightarrow>
                              (case applyTransformPath c pat f to1 of
                                 Inl err \<Rightarrow> (Inl err, g2)
                               | Inr to2 \<Rightarrow> (Inr (Resolved stats to2 content'), g2))))))"

definition postProcessPattern :: "collab \<Rightarrow> ppattern \<Rightarrow> resolved_file \<Rightarrow> globalRef \<Rightarrow> error option \<times> globalRef" where
  "postProcessPattern c pat f g =
     (case contentPipeline c pat f g of
        (Inl err, g') \<Rightarrow> (Some err, g')
      | (Inr Skipped, g') \<Rightarrow> (None, g')
      | (Inr (Resolved stats to1 content), g') \<Rightarrow> (None, writeDecision c f stats to1 content g'))"

subsection \<open>The two halves of the cached transform\<close>

text \<open>
  The cached branch (lines 59 to 100) awaits twice: \<open>cacache.get\<close>, with the
  assignment of the cache directory before it, and, in the handler of a miss, the
  transform and \<open>cacache.put\<close>. Between the two another file may take its turn.
\<close>

definition cacheGet :: "collab \<Rightarrow> ppattern \<Rightarrow> bytes \<Rightarrow> globalRef \<Rightarrow> bytes option \<times> globalRef" where
  "cacheGet c pat content g =
     (let dir = cacheDir_resolved c g;
          g1 = g\<lparr>cacheDir := Some dir\<rparr>
      in (cacache_store g1 (dir, cacheKey_of c pat content), g1))"

definition onCacheMiss :: "collab \<Rightarrow> ppattern \<Rightarrow> (bytes \<Rightarrow> path \<Rightarrow> error + bytes) \<Rightarrow> resolved_file \<Rightarrow> bytes \<Rightarrow>
    globalRef \<Rightarrow> (error + bytes) \<times> globalRef" where
  "onCacheMiss c pat t f content g =
     (let dir = cacheDir_resolved c g;
          cacheKey = cacheKey_of c pat content
      in (case callTransform t content (absoluteFrom f) g of
            (Inl err, g2) \<Rightarrow> (Inl err, g2)
          | (Inr content', g2) \<Rightarrow>
              (case cacache_put_error c dir cacheKey content' of
                 Some err \<Rightarrow> (Inl err, g2)
               | None \<Rightarrow>
                   (Inr content',
                    g2\<lparr>cacache_store := (cacache_store g2)((dir, cacheKey) \<mapsto> content')\<rparr>))))"

subsection \<open>A pass over the resolved files\<close>

text \<open>
  Modelled from the spec: the loop that calls \<open>postProcessPattern\<close> for every
  resolved file of every pattern is not among the sources. After sections 4.6 and 5
  of the spec the pipelines of sibling files may be in flight together and take
  turns at every awaited operation (stat, read, cache lookup and store), in no fixed
  order, while the last callback of a file, the write decision, runs in one piece.
  A pass is therefore a sequence of steps of two kinds, in the order in which they
  run: a write decision, taken on the stats, the destination and the content that the
  file's pipeline ended with; and a step of some pipeline before its write decision.
  Such a step may change anything but the write history, the asset table and
  \<open>copyUnmodified\<close>, which no stage before the write decision touches; with every
  function allowed for it, each way of taking turns is among the passes.
\<close>

datatype pass_step =
    PipelineStep "globalRef \<Rightarrow> globalRef"
  | WriteStep resolved_file fstat string bytes

fun runPass :: "collab \<Rightarrow> pass_step list \<Rightarrow> globalRef \<Rightarrow> globalRef" where
  "runPass c [] g = g"
| "runPass c (PipelineStep h # steps) g =
     runPass c steps ((h g)\<lparr>compilation_assets := compilation_assets g, written := written g,
                            copyUnmodified := copyUnmodified g\<rparr>)"
| "runPass c (WriteStep f stats to1 content # steps) g =
     runPass c steps (writeDecision c f stats to1 content g)"

text \<open>
  The triples of destination, source path and content hash that the write
  decisions of a pass are taken on, in order.
\<close>

fun decisionsOf :: "collab \<Rightarrow> pass_step list \<Rightarrow> (string \<times> path \<times> string) list" where
  "decisionsOf c [] = []"
| "decisionsOf c (PipelineStep h # steps) = decisionsOf c steps"
| "decisionsOf c (WriteStep f stats to1 content # steps) =
     (to1, absoluteFrom f, getHashDigest c content) # decisionsOf c steps"

text \<open>
  The steps of one call of \<open>postProcessPattern\<close> that runs without giving up its
  turn: the pipeline, then the write decision if the pipeline resolved the file.
\<close>

definition stepsOf :: "collab \<Rightarrow> ppattern \<Rightarrow> resolved_file \<Rightarrow> globalRef \<Rightarrow> pass_step list" where
  "stepsOf c pat f g =
     PipelineStep (\<lambda>g. snd (contentPipeline c pat f g))
       # (case fst (contentPipeline c pat f g) of
            Inr (Resolved stats to1 content) \<Rightarrow> [WriteStep f stats to1 content]
          | _ \<Rightarrow> [])"

section \<open>Vocabulary of the statements\<close>

text \<open>
  The glob matches that the ignore list lets through, and the copy that the emit
  handler issues for one of them when the destination \<open>d\<close> is absolute (\<open>b\<close>: the
  destination looks like a directory).
\<close>

definition kept :: "env \<Rightarrow> string list option \<Rightarrow> path list \<Rightarrow> path list" where
  "kept e ign ms = filter (\<lambda>m. \<not> shouldIgnore (minimatch e) m ign) ms"

definition directCopy :: "env \<Rightarrow> path \<Rightarrow> string \<Rightarrow> bool \<Rightarrow> path \<Rightarrow> path \<times> path" where
  "directCopy e baseDir d b m =
     (path_resolve e baseDir m,
      if b then path_join e d (path_basename e (path_resolve e baseDir m)) else d)"

text \<open>
  Between two states of \<open>postProcessPattern\<close>: the cache directory in use is the
  same and the store has kept every entry. \<open>lookupWritten\<close> reads
  \<open>written[to][from]\<close>.
\<close>

definition cache_grows :: "collab \<Rightarrow> globalRef \<Rightarrow> globalRef \<Rightarrow> bool" where
  "cache_grows c g g' \<longleftrightarrow>
     cacheDir_resolved c g' = cacheDir_resolved c g \<and> cacache_store g \<subseteq>\<^sub>m cacache_store g'"




section \<open>Concrete scenarios\<close>

text \<open>
  The inputs on which the witnesses and the counterexamples run the code, with
  base directory and working directory \<open>/proj\<close>.
\<close>

definition empty_state :: state where
  "empty_state = \<lparr> assets = Map.empty, assets_proto = None, errors = [], fileDependencies = [],
                    contextDependencies = [], lastGlobalUpdate = 0, copies = [] \<rparr>"





definition denied_scenario_env :: env where
  "denied_scenario_env =
     posix_env ''/proj'' (\<lambda>p. Inl (FsError ''EACCES'')) (\<lambda>src dest. None) (\<lambda>g cwd. Inr [])
       (\<lambda>d. Inl (FsError ''ENOENT'')) minimatch_literal 1000"

definition denied_scenario_pattern :: pattern where
  "denied_scenario_pattern =
     \<lparr> pattern_from = ''secret.txt'', pattern_to = None, pattern_toType = None, pattern_force = False \<rparr>"

definition copy_scenario_env :: env where
  "copy_scenario_env =
     posix_env ''/proj'' (\<lambda>p. Inl (FsError ''ENOENT'')) (\<lambda>src dest. None)
       (\<lambda>g cwd. Inr [''a.txt'', ''img/b.txt'', ''img/skip.txt''])
       (\<lambda>d. Inl (FsError ''ENOENT'')) minimatch_literal 1000"


definition copy_scenario_file_pattern :: pattern where
  "copy_scenario_file_pattern =
     \<lparr> pattern_from = ''**/*.txt'', pattern_to = Some ''/backup/all.bin'', pattern_toType = None,
       pattern_force = True \<rparr>"






text \<open>
  For \<open>postProcessPattern\<close>: three source files, \<open>/proj/a.txt\<close> and
  \<open>/proj/c.txt\<close> holding \<open>abc\<close> and \<open>/proj/b.txt\<close> holding \<open>xyz\<close>. The digest is
  a stand-in that is never empty and differs on different contents; \<open>append_mark\<close>
  is a transform that appends a suffix, \<open>append_path\<close> one that appends the path of
  the source file and \<open>throwing_transform\<close> one that throws.
\<close>

definition demo_collab :: collab where
  "demo_collab =
     \<lparr> stat = (\<lambda>p. if p = ''/proj/a.txt'' \<or> p = ''/proj/b.txt'' \<or> p = ''/proj/c.txt''
                     then Inr \<lparr> isDirectory = False, stat_size = 3, mtime = 1 \<rparr>
                     else Inl (FsError ''ENOENT'')),
       readFile = (\<lambda>p. if p = ''/proj/a.txt'' then Inr ''abc''
                         else if p = ''/proj/b.txt'' then Inr ''xyz''
                         else if p = ''/proj/c.txt'' then Inr ''abc''
                         else Inl (FsError ''ENOENT'')),
       findCacheDir = Some ''/proj/node_modules/.cache/copy-webpack-plugin'',
       os_tmpdir = ''/tmp'',
       serialize = (\<lambda>pat hash. hash),
       md4_hex = (\<lambda>content. content),
       cacache_put_error = (\<lambda>dir key content. None),
       getHashDigest = (\<lambda>content. CHR ''#'' # content),
       p_extname = posix_extname,
       p_normalize = posix_normalize,
       normalizePath = (\<lambda>p. p),
       interpolateName = (\<lambda>resourcePath name content regExp context. Inr name) \<rparr>"

definition append_mark :: "string \<Rightarrow> bytes \<Rightarrow> path \<Rightarrow> error + bytes" where
  "append_mark suffix content absFrom = Inr (content @ suffix)"

definition append_path :: "bytes \<Rightarrow> path \<Rightarrow> error + bytes" where
  "append_path content absFrom = Inr (content @ absFrom)"


definition demo_pattern :: "(bytes \<Rightarrow> path \<Rightarrow> error + bytes) \<Rightarrow> string option option \<Rightarrow> ppattern" where
  "demo_pattern t cache =
     \<lparr> pp_stats = None, pp_fromType = ''file'', pp_transform = Some t, pp_cache = cache,
       pp_toType = Some ''file'', pp_context = ''/proj'', pp_transformPath = None \<rparr>"

definition demo_file :: resolved_file where
  "demo_file = \<lparr> absoluteFrom = ''/proj/a.txt'', relativeFrom = ''a.txt'', webpackTo = ''a.txt'',
                  force = False, webpackToRegExp = None \<rparr>"

definition demo_file_b :: resolved_file where
  "demo_file_b = \<lparr> absoluteFrom = ''/proj/b.txt'', relativeFrom = ''b.txt'', webpackTo = ''a.txt'',
                    force = False, webpackToRegExp = None \<rparr>"

definition demo_globalRef :: globalRef where
  "demo_globalRef =
     \<lparr> compilation_assets = Map.empty, fileDeps = {}, written = Map.empty, cacheDir = None,
       copyUnmodified = False, cacache_store = Map.empty, transform_calls = [] \<rparr>"

definition demo_file_c :: resolved_file where
  "demo_file_c = \<lparr> absoluteFrom = ''/proj/c.txt'', relativeFrom = ''c.txt'', webpackTo = ''c.txt'',
                    force = False, webpackToRegExp = None \<rparr>"

definition demo_stats :: fstat where
  "demo_stats = \<lparr> isDirectory = False, stat_size = 3, mtime = 1 \<rparr>"

text \<open>
  Passes in which every call of \<open>postProcessPattern\<close> ends before the next one
  begins, which is one of the orders that the Orchestrator allows: two patterns with
  different transforms on the same file; the same with force set, and a third file.
\<close>

definition conflicting_pass :: "globalRef \<Rightarrow> globalRef" where
  "conflicting_pass g =
     snd (postProcessPattern demo_collab (demo_pattern (append_mark ''2'') None) demo_file
       (snd (postProcessPattern demo_collab (demo_pattern (append_mark ''1'') None) demo_file g)))"


text \<open>
  A pass in which two files of one pattern take turns. The pattern has the cached
  transform \<open>append_path\<close>; the files \<open>a.txt\<close> and \<open>c.txt\<close> hold the same bytes,
  hence share the cache key. Both look the key up before either has stored its
  result; then each runs the transform and stores, \<open>c.txt\<close> last; then the two write
  decisions are taken.
\<close>

definition twin_pattern :: ppattern where
  "twin_pattern = demo_pattern append_path (Some None)"

definition twin_lookup_a :: "bytes option \<times> globalRef" where
  "twin_lookup_a = cacheGet demo_collab twin_pattern ''abc'' demo_globalRef"

definition twin_lookup_c :: "bytes option \<times> globalRef" where
  "twin_lookup_c = cacheGet demo_collab twin_pattern ''abc'' (snd twin_lookup_a)"

definition twin_miss_a :: "(error + bytes) \<times> globalRef" where
  "twin_miss_a = onCacheMiss demo_collab twin_pattern append_path demo_file ''abc'' (snd twin_lookup_c)"

definition twin_miss_c :: "(error + bytes) \<times> globalRef" where
  "twin_miss_c = onCacheMiss demo_collab twin_pattern append_path demo_file_c ''abc'' (snd twin_miss_a)"

definition twin_first_pass :: globalRef where
  "twin_first_pass =
     writeDecision demo_collab demo_file_c demo_stats ''c.txt'' ''abc/proj/c.txt''
       (writeDecision demo_collab demo_file demo_stats ''a.txt'' ''abc/proj/a.txt'' (snd twin_miss_c))"

text \<open>The same pass in the form of its steps.\<close>

definition twin_pass :: "pass_step list" where
  "twin_pass =
     [PipelineStep (\<lambda>g. snd (cacheGet demo_collab twin_pattern ''abc'' g)),
      PipelineStep (\<lambda>g. snd (cacheGet demo_collab twin_pattern ''abc'' g)),
      PipelineStep (\<lambda>g. snd (onCacheMiss demo_collab twin_pattern append_path demo_file ''abc'' g)),
      PipelineStep (\<lambda>g. snd (onCacheMiss demo_collab twin_pattern append_path demo_file_c ''abc'' g)),
      WriteStep demo_file demo_stats ''a.txt'' ''abc/proj/a.txt'',
      WriteStep demo_file_c demo_stats ''c.txt'' ''abc/proj/c.txt'']"



section \<open>The entry file: lemmas and theorems\<close>

subsection \<open>The ignore filter\<close>

text \<open>
  C7. \<open>shouldIgnore\<close> returns true exactly when at least one glob of the ignore
  list matches the path, provided that the first glob of the list that matches is
  not the empty string, which the test \<open>if (matched)\<close> takes for no match. That is
  so whenever the empty glob is not in the list, and whenever the path is not empty,
  since minimatch matches the empty glob against the empty path only; the callers
  pass a match of the glob (line 81) or the path of a listed file relative to its
  directory (line 188), never the empty path. For an empty list, and for an
  undefined one, the function returns false. It is a total function of the matcher,
  the path and the list: it changes no state and raises nothing.
\<close>

theorem shouldIgnore_iff_some_glob_matches:
  assumes "find (mm pathName) ignoreGlobs \<noteq> Some []"
  shows "shouldIgnore mm pathName (Some ignoreGlobs) = (\<exists>glob\<in>set ignoreGlobs. mm pathName glob)
         \<and> \<not> shouldIgnore mm pathName (Some []) \<and> \<not> shouldIgnore mm pathName None"
proof -
  have "shouldIgnore mm pathName (Some ignoreGlobs) = (\<exists>glob\<in>set ignoreGlobs. mm pathName glob)"
  proof (cases "find (mm pathName) ignoreGlobs")
    case None
    then have "\<forall>glob\<in>set ignoreGlobs. \<not> mm pathName glob"
      by (simp add: find_None_iff)
    with None show ?thesis by (simp add: shouldIgnore_def)
  next
    case (Some g)
    then have "mm pathName g" and "g \<in> set ignoreGlobs"
      by (auto simp: find_Some_iff)
    with assms Some show ?thesis
      by (auto simp: shouldIgnore_def)
  qed
  then show ?thesis by (simp add: shouldIgnore_def)
qed

text \<open>
  C7, witness: \<open>img/a.txt\<close> against the lists \<open>[b.txt, a.txt]\<close> and, with the empty
  glob in the list, \<open>["", b.txt]\<close>.
\<close>

theorem shouldIgnore_iff_some_glob_matches_witness:
  "find (minimatch_literal ''img/a.txt'') [''b.txt'', ''a.txt''] \<noteq> Some [] \<and>
   shouldIgnore minimatch_literal ''img/a.txt'' (Some [''b.txt'', ''a.txt'']) \<and>
   find (minimatch_literal ''img/a.txt'') [[], ''b.txt''] \<noteq> Some [] \<and>
   \<not> shouldIgnore minimatch_literal ''img/a.txt'' (Some [[], ''b.txt''])"
proof -
  have b: "posix_basename ''img/a.txt'' = ''a.txt''"
    by (simp add: posix_basename_def)
  have h1: "find (minimatch_literal ''img/a.txt'') [''b.txt'', ''a.txt''] \<noteq> Some []"
    by (simp add: minimatch_literal_def b)
  have h2: "find (minimatch_literal ''img/a.txt'') [[], ''b.txt''] \<noteq> Some []"
    by (simp add: minimatch_literal_def b)
  from shouldIgnore_iff_some_glob_matches
         [where mm = minimatch_literal and pathName = "''img/a.txt''" and ignoreGlobs = "[''b.txt'', ''a.txt'']"]
       shouldIgnore_iff_some_glob_matches
         [where mm = minimatch_literal and pathName = "''img/a.txt''" and ignoreGlobs = "[[], ''b.txt'']"]
       h1 h2
  show ?thesis
    by (simp add: minimatch_literal_def b)
qed

text \<open>
  Outside that case, when the first glob that matches is the empty string, the
  function returns false although a glob matches.
\<close>

lemma shouldIgnore_first_match_empty:
  assumes "find (mm pathName) ignoreGlobs = Some []"
  shows "\<not> shouldIgnore mm pathName (Some ignoreGlobs)"
    and "\<exists>glob\<in>set ignoreGlobs. mm pathName glob"
proof -
  from assms show "\<not> shouldIgnore mm pathName (Some ignoreGlobs)"
    by (simp add: shouldIgnore_def)
  from assms show "\<exists>glob\<in>set ignoreGlobs. mm pathName glob"
    by (metis find_Some_iff nth_mem)
qed

subsection \<open>The factory\<close>

text \<open>
  C8, counterexample. Undefined is not a list, and the factory returns a plugin for
  it instead of throwing.
\<close>

theorem copyWebpackPlugin_undefined_counterexample:
  "\<not> isArray (JUndefined :: pattern js_arg) \<and>
   copyWebpackPlugin JUndefined None = Inr \<lparr> plugin_patterns = [], plugin_options = None \<rparr>"
  by (simp add: copyWebpackPlugin_def)

text \<open>
  C8, as amended. When the patterns argument is neither an array nor undefined, the
  factory throws \<open>CopyWebpackPlugin: patterns must be an array\<close>. The factory is a
  function of its two arguments alone: it reads no filesystem and no asset table, so
  the error comes before any input, output or asset-table change.
\<close>

theorem copyWebpackPlugin_rejects_non_array:
  assumes "patterns \<noteq> JUndefined" and "\<not> isArray patterns"
  shows "copyWebpackPlugin patterns opts = Inl (Error ''CopyWebpackPlugin: patterns must be an array'')"
  using assms by (cases patterns) (simp_all add: copyWebpackPlugin_def)

text \<open>
  C8, witness: a string given for the patterns.
\<close>

theorem copyWebpackPlugin_rejects_non_array_witness:
  "JString ''a.txt'' \<noteq> (JUndefined :: pattern js_arg) \<and> \<not> isArray (JString ''a.txt'' :: pattern js_arg) \<and>
   copyWebpackPlugin (JString ''a.txt'') None = Inl (Error ''CopyWebpackPlugin: patterns must be an array'')"
  using copyWebpackPlugin_rejects_non_array [of "JString ''a.txt''" None] by simp

text \<open>
  C10. Called with the patterns undefined, the factory does not throw: it returns the
  plugin bound to the empty pattern list, and the emit handler of that plugin leaves
  the state as it was but for the recorded time of the pass. No copy is issued, and
  the asset table and the error list are unchanged.
\<close>

theorem undefined_patterns_emit_nothing:
  "copyWebpackPlugin JUndefined opts = Inr \<lparr> plugin_patterns = [], plugin_options = opts \<rparr> \<and>
   apply_emit e \<lparr> plugin_patterns = [], plugin_options = opts \<rparr> baseDir s
     = s\<lparr>lastGlobalUpdate := now e\<rparr>"
  by (simp add: copyWebpackPlugin_def apply_emit_def emit_def)

subsection \<open>Running the scenarios\<close>

lemmas entry_defs = emit_def processPattern_def globBranch_def globFile_def writeFileToAssets_def
  assets_truthy_def assets_assign_def objectPrototypeKeys_def
  statOrNull_def absDest_of_def to_or_empty_def js_first_def js_last_def shouldIgnore_def ignoreList_of_def
  toLooksLikeDirectory_def fs_copy_def writeDirectoryToAssets_def writeDirectoryFile_def


lemma copy_scenario_paths:
  "posix_resolve ''/proj'' ''/proj'' ''secret.txt'' = ''/proj/secret.txt''"
  "posix_resolve ''/proj'' ''/proj'' ''**/*.txt'' = ''/proj/**/*.txt''"
  "posix_resolve ''/proj'' ''/proj'' ''a.txt'' = ''/proj/a.txt''"
  "posix_resolve ''/proj'' ''/proj'' ''img/b.txt'' = ''/proj/img/b.txt''"
  "posix_resolve ''/proj'' ''/proj'' ''img/skip.txt'' = ''/proj/img/skip.txt''"
  "posix_resolve ''/proj'' ''/proj'' ''static'' = ''/proj/static''"
  "posix_dirname ''a.txt'' = ''.''"
  "posix_dirname ''img/b.txt'' = ''img''"
  "posix_dirname ''img/skip.txt'' = ''img''"
  "posix_basename ''/proj/a.txt'' = ''a.txt''"
  "posix_basename ''/proj/img/b.txt'' = ''b.txt''"
  "posix_basename ''/proj/static/img/x.png'' = ''x.png''"
  "posix_basename ''a.txt'' = ''a.txt''"
  "posix_basename ''img/b.txt'' = ''b.txt''"
  "posix_basename ''img/skip.txt'' = ''skip.txt''"
  "posix_join ''/out/'' ''a.txt'' = ''/out/a.txt''"
  "posix_join ''/out/'' ''b.txt'' = ''/out/b.txt''"
  "posix_join ''/out/'' ''x.png'' = ''/out/x.png''"
  "posix_extname ''/out/'' = []"
  "posix_extname ''/backup/all.bin'' = ''.bin''"
  by code_simp+



lemma copy_scenario_file_run:
  "processPattern copy_scenario_env (Some [''skip.txt'']) ''/proj'' copy_scenario_file_pattern empty_state =
     (None, empty_state\<lparr>fileDependencies := [''/proj/a.txt'', ''/proj/img/b.txt''],
                        copies := [(''/proj/a.txt'', ''/backup/all.bin''), (''/proj/img/b.txt'', ''/backup/all.bin'')]\<rparr>)"
  by (simp add: copy_scenario_env_def copy_scenario_file_pattern_def posix_env_def empty_state_def
      copy_scenario_paths entry_defs minimatch_literal_def Let_def)


subsection \<open>The glob branch with an absolute destination\<close>

lemma absDest_of_Some:
  assumes "absDest_of e (to_or_empty pat) = Some d"
  shows "d = to_or_empty pat" and "pattern_to pat = Some d"
proof -
  from assms show d: "d = to_or_empty pat"
    by (auto simp: absDest_of_def split: if_splits)
  from assms have "to_or_empty pat \<noteq> []"
    by (auto simp: absDest_of_def winRootMatcher_def js_first_def split: if_splits)
  with d show "pattern_to pat = Some d"
    by (cases "pattern_to pat") (auto simp: to_or_empty_def)
qed

lemma toLooksLikeDirectory_abs:
  assumes "absDest_of e (to_or_empty pat) = Some d"
  shows "\<exists>b. toLooksLikeDirectory e pat = Inr b"
  using absDest_of_Some(2) [OF assms] by (simp add: toLooksLikeDirectory_def)

lemma globFile_abs:
  assumes "absDest_of e (to_or_empty pat) = Some d" and "toLooksLikeDirectory e pat = Inr b"
  shows "globFile e ign baseDir pat sta m s =
           (if shouldIgnore (minimatch e) m ign then (None, s)
            else (fs_copyAsync e (fst (directCopy e baseDir d b m)) (snd (directCopy e baseDir d b m)),
                  s\<lparr>fileDependencies := fileDependencies s @ [path_resolve e baseDir m],
                    copies := copies s @ [directCopy e baseDir d b m]\<rparr>))"
  using assms by (simp add: globFile_def fs_copy_def directCopy_def Let_def)

lemma each_globFile_abs:
  assumes "absDest_of e (to_or_empty pat) = Some d" and "toLooksLikeDirectory e pat = Inr b"
      and "each (globFile e ign baseDir pat sta) ms s = (r, s')"
  shows "assets s' = assets s \<and> assets_proto s' = assets_proto s \<and> errors s' = errors s \<and>
         lastGlobalUpdate s' = lastGlobalUpdate s \<and>
         (\<exists>k. copies s' = copies s @ map (directCopy e baseDir d b) (take k (kept e ign ms))) \<and>
         (r = None \<longrightarrow> copies s' = copies s @ map (directCopy e baseDir d b) (kept e ign ms))"
  using assms(3)
proof (induction ms arbitrary: s)
  case Nil
  then show ?case by (auto simp: kept_def)
next
  case (Cons m ms)
  show ?case
  proof (cases "shouldIgnore (minimatch e) m ign")
    case True
    with Cons.prems globFile_abs [OF assms(1,2), of ign baseDir sta m s]
    have "each (globFile e ign baseDir pat sta) ms s = (r, s')"
      by simp
    from Cons.IH [OF this] True show ?thesis by (simp add: kept_def)
  next
    case False
    let ?s1 = "s\<lparr>fileDependencies := fileDependencies s @ [path_resolve e baseDir m],
                   copies := copies s @ [directCopy e baseDir d b m]\<rparr>"
    show ?thesis
    proof (cases "fs_copyAsync e (fst (directCopy e baseDir d b m)) (snd (directCopy e baseDir d b m))")
      case None
      with False Cons.prems globFile_abs [OF assms(1,2), of ign baseDir sta m s]
      have "each (globFile e ign baseDir pat sta) ms ?s1 = (r, s')"
        by simp
      from Cons.IH [OF this] obtain k where
        k: "copies s' = copies ?s1 @ map (directCopy e baseDir d b) (take k (kept e ign ms))"
        and rest: "assets s' = assets s" "assets_proto s' = assets_proto s" "errors s' = errors s"
          "lastGlobalUpdate s' = lastGlobalUpdate s"
          "r = None \<longrightarrow> copies s' = copies ?s1 @ map (directCopy e baseDir d b) (kept e ign ms)"
        by auto
      from k False have "copies s' = copies s @ map (directCopy e baseDir d b) (take (Suc k) (kept e ign (m # ms)))"
        by (simp add: kept_def)
      then have "\<exists>k. copies s' = copies s @ map (directCopy e baseDir d b) (take k (kept e ign (m # ms)))" ..
      with rest False show ?thesis by (simp add: kept_def)
    next
      case (Some err)
      with False Cons.prems globFile_abs [OF assms(1,2), of ign baseDir sta m s]
      have r: "r = Some err" and s': "s' = ?s1"
        by simp_all
      from s' False have "copies s' = copies s @ map (directCopy e baseDir d b) (take 1 (kept e ign (m # ms)))"
        by (simp add: kept_def)
      then have "\<exists>k. copies s' = copies s @ map (directCopy e baseDir d b) (take k (kept e ign (m # ms)))" ..
      with r s' show ?thesis by simp
    qed
  qed
qed

lemma globFile_abs_frame:
  assumes "absDest_of e (to_or_empty pat) = Some d"
  shows "globFile e ign baseDir (pat\<lparr>pattern_force := fo\<rparr>) sta m
           (s\<lparr>assets := A, assets_proto := P, lastGlobalUpdate := l\<rparr>) =
           (case globFile e ign baseDir pat sta m s of
              (r, s') \<Rightarrow> (r, s'\<lparr>assets := A, assets_proto := P, lastGlobalUpdate := l\<rparr>))"
proof -
  from toLooksLikeDirectory_abs [OF assms] obtain b where b: "toLooksLikeDirectory e pat = Inr b" ..
  have abs': "absDest_of e (to_or_empty (pat\<lparr>pattern_force := fo\<rparr>)) = Some d"
    using assms by (simp add: to_or_empty_def)
  have b': "toLooksLikeDirectory e (pat\<lparr>pattern_force := fo\<rparr>) = Inr b"
    using b by (simp add: toLooksLikeDirectory_def split: option.splits)
  show ?thesis
    using globFile_abs [OF assms b, of ign baseDir sta m s]
      globFile_abs [OF abs' b', of ign baseDir sta m "s\<lparr>assets := A, assets_proto := P, lastGlobalUpdate := l\<rparr>"]
    by simp
qed

lemma each_globFile_abs_frame:
  assumes "absDest_of e (to_or_empty pat) = Some d"
  shows "each (globFile e ign baseDir (pat\<lparr>pattern_force := fo\<rparr>) sta) ms
           (s\<lparr>assets := A, assets_proto := P, lastGlobalUpdate := l\<rparr>) =
           (case each (globFile e ign baseDir pat sta) ms s of
              (r, s') \<Rightarrow> (r, s'\<lparr>assets := A, assets_proto := P, lastGlobalUpdate := l\<rparr>))"
proof (induction ms arbitrary: s)
  case Nil
  show ?case by simp
next
  case (Cons m ms)
  obtain r1 s1 where step: "globFile e ign baseDir pat sta m s = (r1, s1)"
    by (cases "globFile e ign baseDir pat sta m s")
  show ?case
    using Cons.IH [of s1] step globFile_abs_frame [OF assms, where s = s and m = m and ign = ign and baseDir = baseDir
        and fo = fo and sta = sta and A = A and P = P and l = l]
    by (cases r1) simp_all
qed

lemma processPattern_glob:
  assumes "\<not> (case statOrNull e (path_resolve e baseDir (pattern_from pat)) of
                None \<Rightarrow> False | Some st \<Rightarrow> isDirectory st)"
  shows "processPattern e ign baseDir pat s =
           globBranch e ign baseDir pat (statOrNull e (path_resolve e baseDir (pattern_from pat))) s"
  using assms by (simp add: processPattern_def Let_def)


subsection \<open>Without an absolute destination no copy is issued\<close>










text \<open>
  C9. Take a pattern with an absolute destination whose files are the matches of the
  glob. Each kept match is copied with \<open>fs.copyAsync\<close>: to the destination joined
  with the base name of the file when the destination looks like a directory, to the
  destination itself otherwise. The asset table is left as it was, whatever the
  outcome. The force flag, the asset table and the time of the last pass are never
  read: with any other values of the three the outcome and the rest of the state are
  the same.
\<close>

theorem absolute_destination_bypasses_assets:
  assumes "absDest_of e (to_or_empty pat) = Some d"
      and "\<not> (case statOrNull e (path_resolve e baseDir (pattern_from pat)) of
                 None \<Rightarrow> False | Some st \<Rightarrow> isDirectory st)"
      and "globAsync e (pattern_from pat) baseDir = Inr matches"
      and "processPattern e ign baseDir pat s = (r, s')"
  shows "assets s' = assets s \<and> assets_proto s' = assets_proto s \<and>
         (\<exists>k. copies s' = copies s @
            map (\<lambda>m. (path_resolve e baseDir m,
                       if toLooksLikeDirectory e pat = Inr True
                       then path_join e d (path_basename e (path_resolve e baseDir m)) else d))
              (take k (filter (\<lambda>m. \<not> shouldIgnore (minimatch e) m ign) matches))) \<and>
         (r = None \<longrightarrow> copies s' = copies s @
            map (\<lambda>m. (path_resolve e baseDir m,
                       if toLooksLikeDirectory e pat = Inr True
                       then path_join e d (path_basename e (path_resolve e baseDir m)) else d))
              (filter (\<lambda>m. \<not> shouldIgnore (minimatch e) m ign) matches)) \<and>
         processPattern e ign baseDir (pat\<lparr>pattern_force := fo\<rparr>)
             (s\<lparr>assets := A, assets_proto := P, lastGlobalUpdate := l\<rparr>)
           = (r, s'\<lparr>assets := A, assets_proto := P, lastGlobalUpdate := l\<rparr>)"
proof -
  let ?sta = "statOrNull e (path_resolve e baseDir (pattern_from pat))"
  from toLooksLikeDirectory_abs [OF assms(1)] obtain b where b: "toLooksLikeDirectory e pat = Inr b" ..
  from assms(2,3,4) have run: "each (globFile e ign baseDir pat ?sta) matches s = (r, s')"
    by (simp add: processPattern_glob globBranch_def)
  note main = each_globFile_abs [OF assms(1) b run]
  have frame: "processPattern e ign baseDir (pat\<lparr>pattern_force := fo\<rparr>)
                 (s\<lparr>assets := A, assets_proto := P, lastGlobalUpdate := l\<rparr>)
           = (r, s'\<lparr>assets := A, assets_proto := P, lastGlobalUpdate := l\<rparr>)"
  proof -
    have "\<not> (case statOrNull e (path_resolve e baseDir (pattern_from (pat\<lparr>pattern_force := fo\<rparr>))) of
                 None \<Rightarrow> False | Some st \<Rightarrow> isDirectory st)"
      using assms(2) by simp
    from processPattern_glob [OF this] assms(3) run
      each_globFile_abs_frame [OF assms(1), where ign = ign and baseDir = baseDir and fo = fo
        and sta = ?sta and ms = matches and s = s and A = A and P = P and l = l]
    show ?thesis by (simp add: globBranch_def)
  qed
  from main frame b show ?thesis
    by (simp add: kept_def directCopy_def [abs_def])
qed

text \<open>
  C9, witness: \<open>**/*.txt\<close> to the file \<open>/backup/all.bin\<close>, with force set.
\<close>

theorem absolute_destination_bypasses_assets_witness:
  "absDest_of copy_scenario_env (to_or_empty copy_scenario_file_pattern) = Some ''/backup/all.bin'' \<and>
   globAsync copy_scenario_env (pattern_from copy_scenario_file_pattern) ''/proj''
     = Inr [''a.txt'', ''img/b.txt'', ''img/skip.txt''] \<and>
   assets (snd (processPattern copy_scenario_env (Some [''skip.txt'']) ''/proj''
                  copy_scenario_file_pattern empty_state)) = Map.empty \<and>
   copies (snd (processPattern copy_scenario_env (Some [''skip.txt'']) ''/proj''
                  copy_scenario_file_pattern empty_state))
     = [(''/proj/a.txt'', ''/backup/all.bin''), (''/proj/img/b.txt'', ''/backup/all.bin'')]"
proof -
  have h1: "absDest_of copy_scenario_env (to_or_empty copy_scenario_file_pattern) = Some ''/backup/all.bin''"
    by (simp add: absDest_of_def to_or_empty_def copy_scenario_file_pattern_def copy_scenario_env_def
        posix_env_def js_first_def)
  have h2: "\<not> (case statOrNull copy_scenario_env
                     (path_resolve copy_scenario_env ''/proj'' (pattern_from copy_scenario_file_pattern)) of
                 None \<Rightarrow> False | Some st \<Rightarrow> isDirectory st)"
    by (simp add: statOrNull_def copy_scenario_env_def posix_env_def)
  have h3: "globAsync copy_scenario_env (pattern_from copy_scenario_file_pattern) ''/proj''
              = Inr [''a.txt'', ''img/b.txt'', ''img/skip.txt'']"
    by (simp add: copy_scenario_env_def posix_env_def)
  have h4: "processPattern copy_scenario_env (Some [''skip.txt'']) ''/proj'' copy_scenario_file_pattern empty_state
              = (None, snd (processPattern copy_scenario_env (Some [''skip.txt'']) ''/proj''
                              copy_scenario_file_pattern empty_state))"
    by (simp add: copy_scenario_file_run)
  have nd: "toLooksLikeDirectory copy_scenario_env copy_scenario_file_pattern = Inr False"
    by (simp add: toLooksLikeDirectory_def copy_scenario_file_pattern_def copy_scenario_env_def
        posix_env_def copy_scenario_paths js_last_def)
  have sel: "filter (\<lambda>m. \<not> shouldIgnore (minimatch copy_scenario_env) m (Some [''skip.txt'']))
               [''a.txt'', ''img/b.txt'', ''img/skip.txt''] = [''a.txt'', ''img/b.txt'']"
    by (simp add: shouldIgnore_def copy_scenario_env_def posix_env_def minimatch_literal_def
        copy_scenario_paths)
  from absolute_destination_bypasses_assets [OF h1 h2 h3 h4,
      where fo = False and A = Map.empty and P = None and l = 0, unfolded sel nd]
  have "assets (snd (processPattern copy_scenario_env (Some [''skip.txt'']) ''/proj''
                  copy_scenario_file_pattern empty_state)) = assets empty_state"
    and "copies (snd (processPattern copy_scenario_env (Some [''skip.txt'']) ''/proj''
                  copy_scenario_file_pattern empty_state))
        = copies empty_state @
            map (\<lambda>m. (path_resolve copy_scenario_env ''/proj'' m, ''/backup/all.bin''))
              [''a.txt'', ''img/b.txt'']"
    by simp_all
  then show ?thesis
    using h1 h3
    by (simp add: empty_state_def copy_scenario_env_def posix_env_def copy_scenario_paths)
qed

subsection \<open>A failed stat\<close>

text \<open>
  C3, counterexample. Stat fails with \<open>EACCES\<close>, which is not a "not found"; the
  pattern is tried as a glob all the same, the glob finds nothing, and the error list
  of the build stays empty.
\<close>

theorem stat_denied_counterexample:
  "fs_statAsync denied_scenario_env
     (path_resolve denied_scenario_env ''/proj'' (pattern_from denied_scenario_pattern))
     = Inl (FsError ''EACCES'') \<and>
   FsError ''EACCES'' \<noteq> FsError ''ENOENT'' \<and>
   errors (emit denied_scenario_env [denied_scenario_pattern] None ''/proj'' empty_state) = []"
  by (simp add: denied_scenario_env_def denied_scenario_pattern_def posix_env_def empty_state_def
      copy_scenario_paths entry_defs Let_def)

text \<open>
  C3, as amended. When stat of the pattern's resolved \<open>from\<close> path fails, with
  whatever error, the error is dropped and the pattern is processed as a glob with a
  null stat. If the glob yields zero matches the pattern is a no-op and the pass
  records no error, only its time. What reaches the error list of the build is a
  rejection of the glob itself.
\<close>

theorem stat_failure_falls_back_to_glob:
  assumes "fs_statAsync e (path_resolve e baseDir (pattern_from pat)) = Inl err"
  shows "processPattern e ign baseDir pat s = globBranch e ign baseDir pat None s \<and>
         (globAsync e (pattern_from pat) baseDir = Inr [] \<longrightarrow>
            processPattern e ign baseDir pat s = (None, s) \<and>
            emit e [pat] opts baseDir s = s\<lparr>lastGlobalUpdate := now e\<rparr>) \<and>
         (\<forall>globErr. globAsync e (pattern_from pat) baseDir = Inl globErr \<longrightarrow>
            emit e [pat] opts baseDir s = s\<lparr>errors := errors s @ [globErr]\<rparr>)"
proof -
  from assms have sn: "statOrNull e (path_resolve e baseDir (pattern_from pat)) = None"
    by (simp add: statOrNull_def)
  then have pp: "\<And>ign. processPattern e ign baseDir pat s = globBranch e ign baseDir pat None s"
    by (simp add: processPattern_def Let_def)
  show ?thesis
    by (simp add: pp emit_def globBranch_def)
qed

text \<open>
  C3, witness: the scenario of the counterexample.
\<close>

theorem stat_failure_falls_back_to_glob_witness:
  "fs_statAsync denied_scenario_env
     (path_resolve denied_scenario_env ''/proj'' (pattern_from denied_scenario_pattern))
     = Inl (FsError ''EACCES'') \<and>
   globAsync denied_scenario_env (pattern_from denied_scenario_pattern) ''/proj'' = Inr [] \<and>
   processPattern denied_scenario_env None ''/proj'' denied_scenario_pattern empty_state
     = (None, empty_state) \<and>
   emit denied_scenario_env [denied_scenario_pattern] None ''/proj'' empty_state
     = empty_state\<lparr>lastGlobalUpdate := 1000\<rparr>"
proof -
  have h: "fs_statAsync denied_scenario_env
             (path_resolve denied_scenario_env ''/proj'' (pattern_from denied_scenario_pattern))
           = Inl (FsError ''EACCES'')"
    by (simp add: denied_scenario_env_def posix_env_def)
  have g: "globAsync denied_scenario_env (pattern_from denied_scenario_pattern) ''/proj'' = Inr []"
    by (simp add: denied_scenario_env_def posix_env_def)
  have n: "now denied_scenario_env = 1000"
    by (simp add: denied_scenario_env_def posix_env_def)
  from stat_failure_falls_back_to_glob [OF h, of None empty_state None] g
  have "processPattern denied_scenario_env None ''/proj'' denied_scenario_pattern empty_state
          = (None, empty_state)"
    and "emit denied_scenario_env [denied_scenario_pattern] None ''/proj'' empty_state
          = empty_state\<lparr>lastGlobalUpdate := now denied_scenario_env\<rparr>"
    by blast+
  with h g n show ?thesis by simp
qed

subsection \<open>Glob matches without an absolute destination\<close>
















section \<open>\<open>postProcessPattern\<close>: lemmas and theorems\<close>

subsection \<open>The transform and its cache\<close>


lemma cache_grows_trans: "cache_grows c g g' \<Longrightarrow> cache_grows c g' g'' \<Longrightarrow> cache_grows c g g''"
  by (auto simp: cache_grows_def intro: map_le_trans)

lemma cacheDir_resolved_set:
  "cacheDir_resolved c (g\<lparr>cacheDir := Some (cacheDir_resolved c g)\<rparr>) = cacheDir_resolved c g"
  by (simp add: cacheDir_resolved_def or_else_def split: option.splits)


lemma transformContent_frame:
  assumes "transformContent c pat f content g = (r, g')"
  shows "compilation_assets g' = compilation_assets g \<and> written g' = written g \<and>
         copyUnmodified g' = copyUnmodified g \<and> fileDeps g' = fileDeps g"
  using assms
  by (auto simp: transformContent_def callTransform_def Let_def
      split: option.splits sum.splits prod.splits)





lemmas demo_defs = demo_collab_def append_mark_def demo_pattern_def demo_file_def demo_file_b_def
  demo_globalRef_def




subsection \<open>The committed entry\<close>

lemma contentPipeline_frame:
  assumes "contentPipeline c pat f g = (r, g')"
  shows "compilation_assets g' = compilation_assets g \<and> written g' = written g \<and>
         copyUnmodified g' = copyUnmodified g"
proof -
  have "\<And>content g1 r1 g2. transformContent c pat f content g1 = (r1, g2) \<Longrightarrow>
          compilation_assets g2 = compilation_assets g1 \<and> written g2 = written g1 \<and>
          copyUnmodified g2 = copyUnmodified g1"
    using transformContent_frame by blast
  with assms show ?thesis
    by (fastforce simp: contentPipeline_def Let_def split: sum.splits if_splits prod.splits)
qed

lemma contentPipeline_stats:
  assumes "contentPipeline c pat f g = (Inr (Resolved stats to1 content), g')"
  shows "getStats c pat f = Inr stats"
  using assms
  by (auto simp: contentPipeline_def Let_def split: sum.splits if_splits prod.splits)

lemma writeDecision_entry:
  assumes "compilation_assets (writeDecision c f stats to1 content g) k \<noteq> compilation_assets g k"
  shows "k = normalizePath c to1 \<and>
         compilation_assets (writeDecision c f stats to1 content g) k
           = Some \<lparr> p_size = stat_size stats, p_source = content \<rparr>"
  using assms by (auto simp: writeDecision_def Let_def split: if_splits)

lemma demo_pipeline_a:
  assumes "absoluteFrom f = ''/proj/a.txt''"
  shows "contentPipeline demo_collab (demo_pattern (append_mark suffix) None) f g
     = (Inr (Resolved \<lparr> isDirectory = False, stat_size = 3, mtime = 1 \<rparr> (webpackTo f) (''abc'' @ suffix)),
        g\<lparr>transform_calls := transform_calls g @ [(''abc'', ''/proj/a.txt'')]\<rparr>)"
  using assms
  by (simp add: contentPipeline_def getStats_def transformContent_def callTransform_def
      interpolateTemplate_def applyTransformPath_def demo_collab_def append_mark_def
      demo_pattern_def Let_def)

lemma demo_pipeline_b:
  assumes "absoluteFrom f = ''/proj/b.txt''"
  shows "contentPipeline demo_collab (demo_pattern (append_mark suffix) None) f g
     = (Inr (Resolved \<lparr> isDirectory = False, stat_size = 3, mtime = 1 \<rparr> (webpackTo f) (''xyz'' @ suffix)),
        g\<lparr>transform_calls := transform_calls g @ [(''xyz'', ''/proj/b.txt'')]\<rparr>)"
  using assms
  by (simp add: contentPipeline_def getStats_def transformContent_def callTransform_def
      interpolateTemplate_def applyTransformPath_def demo_collab_def append_mark_def
      demo_pattern_def Let_def)

lemma demo_pipeline:
  "contentPipeline demo_collab (demo_pattern (append_mark suffix) None) demo_file g
     = (Inr (Resolved \<lparr> isDirectory = False, stat_size = 3, mtime = 1 \<rparr> ''a.txt'' (''abc'' @ suffix)),
        g\<lparr>transform_calls := transform_calls g @ [(''abc'', ''/proj/a.txt'')]\<rparr>)"
  by (simp add: demo_pipeline_a demo_file_def)

text \<open>
  C4, counterexample. A file of three bytes and a transform that appends one: the
  committed entry has \<open>size()\<close> 3 and a \<open>source()\<close> of four bytes.
\<close>

theorem transformed_size_counterexample:
  "readFile demo_collab (absoluteFrom demo_file) = Inr ''abc'' \<and>
   pp_transform (demo_pattern (append_mark ''!'') None) = Some (append_mark ''!'') \<and>
   append_mark ''!'' ''abc'' (absoluteFrom demo_file) = Inr ''abc!'' \<and>
   compilation_assets (snd (postProcessPattern demo_collab (demo_pattern (append_mark ''!'') None)
                              demo_file demo_globalRef)) ''a.txt''
     = Some \<lparr> p_size = 3, p_source = ''abc!'' \<rparr> \<and>
   length ''abc!'' \<noteq> 3"
  by (simp add: postProcessPattern_def demo_pipeline)
     (simp add: writeDecision_def historyHas_def demo_defs Let_def)

text \<open>
  C4, as amended. Every asset-table entry that \<open>postProcessPattern\<close> adds or
  replaces sits at the normalised final destination; its \<open>size()\<close> is the size
  field of the stats used (\<open>pattern.stats\<close> if given, else the stat of the source
  file), also when a transform changed the length of the content; its \<open>source()\<close>
  is the final content.
\<close>

theorem committed_entry_size_is_stat_size:
  assumes "postProcessPattern c pat f g = (r, g')"
      and "compilation_assets g' k \<noteq> compilation_assets g k"
  shows "\<exists>stats to1 content g1.
           contentPipeline c pat f g = (Inr (Resolved stats to1 content), g1) \<and>
           getStats c pat f = Inr stats \<and>
           k = normalizePath c to1 \<and>
           compilation_assets g' k = Some \<lparr> p_size = stat_size stats, p_source = content \<rparr>"
proof -
  obtain res g1 where cp: "contentPipeline c pat f g = (res, g1)"
    by (cases "contentPipeline c pat f g")
  note fr = contentPipeline_frame [OF cp]
  show ?thesis
  proof (cases res)
    case (Inl err)
    with cp assms fr show ?thesis by (simp add: postProcessPattern_def)
  next
    case (Inr rs)
    show ?thesis
    proof (cases rs)
      case Skipped
      with Inr cp assms fr show ?thesis by (simp add: postProcessPattern_def)
    next
      case (Resolved stats to1 content)
      with Inr cp assms(1) have g': "g' = writeDecision c f stats to1 content g1"
        by (simp add: postProcessPattern_def)
      with assms(2) fr
      have "compilation_assets (writeDecision c f stats to1 content g1) k \<noteq> compilation_assets g1 k"
        by simp
      from writeDecision_entry [OF this] have "k = normalizePath c to1"
        and "compilation_assets (writeDecision c f stats to1 content g1) k
               = Some \<lparr> p_size = stat_size stats, p_source = content \<rparr>"
        by blast+
      moreover from Resolved Inr cp have cp': "contentPipeline c pat f g = (Inr (Resolved stats to1 content), g1)"
        by simp
      moreover note contentPipeline_stats [OF cp']
      ultimately show ?thesis using g' by blast
    qed
  qed
qed

text \<open>
  C4, witness: the same file and transform.
\<close>

theorem committed_entry_size_is_stat_size_witness:
  "compilation_assets (snd (postProcessPattern demo_collab (demo_pattern (append_mark ''!'') None)
                              demo_file demo_globalRef)) ''a.txt''
     \<noteq> compilation_assets demo_globalRef ''a.txt'' \<and>
   getStats demo_collab (demo_pattern (append_mark ''!'') None) demo_file
     = Inr \<lparr> isDirectory = False, stat_size = 3, mtime = 1 \<rparr> \<and>
   compilation_assets (snd (postProcessPattern demo_collab (demo_pattern (append_mark ''!'') None)
                              demo_file demo_globalRef)) ''a.txt''
     = Some \<lparr> p_size = 3, p_source = ''abc!'' \<rparr>"
proof -
  let ?pat = "demo_pattern (append_mark ''!'') None"
  let ?run = "postProcessPattern demo_collab ?pat demo_file demo_globalRef"
  have run: "?run = (fst ?run, snd ?run)" by simp
  have none: "compilation_assets demo_globalRef ''a.txt'' = None"
    by (simp add: demo_globalRef_def)
  have some: "compilation_assets (snd ?run) ''a.txt'' \<noteq> None"
    by (simp add: postProcessPattern_def demo_pipeline)
       (simp add: writeDecision_def historyHas_def demo_defs Let_def)
  with none have changed: "compilation_assets (snd ?run) ''a.txt'' \<noteq> compilation_assets demo_globalRef ''a.txt''"
    by simp
  from committed_entry_size_is_stat_size [OF run changed] obtain stats to1 content g1 where
    cp: "contentPipeline demo_collab ?pat demo_file demo_globalRef = (Inr (Resolved stats to1 content), g1)"
    and gs: "getStats demo_collab ?pat demo_file = Inr stats"
    and entry: "compilation_assets (snd ?run) ''a.txt'' = Some \<lparr> p_size = stat_size stats, p_source = content \<rparr>"
    by blast
  from cp have "stats = \<lparr> isDirectory = False, stat_size = 3, mtime = 1 \<rparr>" and "content = ''abc!''"
    by (simp_all add: demo_pipeline)
  with gs entry changed show ?thesis by simp
qed

subsection \<open>The write decision and the write history\<close>





subsection \<open>The cached transform in two halves\<close>

lemma transformContent_halves:
  assumes "pp_transform pat = Some t" and "pp_cache pat = Some k"
  shows "transformContent c pat f content g =
           (case cacheGet c pat content g of
              (Some data, g1) \<Rightarrow> (Inr data, g1)
            | (None, g1) \<Rightarrow> onCacheMiss c pat t f content g1)"
  using assms
  by (simp add: transformContent_def cacheGet_def onCacheMiss_def Let_def cacheDir_resolved_set
      callTransform_def cacheDir_resolved_def [of c "g\<lparr>cacheDir := x, transform_calls := y\<rparr>" for g x y]
      split: option.splits)

subsection \<open>A pass, and a second pass\<close>

lemma runPass_append: "runPass c (xs @ ys) g = runPass c ys (runPass c xs g)"
proof (induction xs arbitrary: g)
  case Nil
  show ?case by simp
next
  case (Cons x xs)
  then show ?case by (cases x) simp_all
qed



text \<open>
  Without a cached transform the outcome of the pipeline does not depend on the
  state it starts from: unchanged sources give the same destination and content.
\<close>

lemma contentPipeline_uncached:
  assumes "pp_transform pat = None \<or> pp_cache pat = None"
  shows "fst (contentPipeline c pat f g) = fst (contentPipeline c pat f g')"
proof (cases "getStats c pat f")
  case (Inl err)
  then show ?thesis by (simp add: contentPipeline_def)
next
  case (Inr stats)
  show ?thesis
  proof (cases "isDirectory stats")
    case True
    with Inr show ?thesis by (simp add: contentPipeline_def)
  next
    case False
    show ?thesis
    proof (cases "readFile c (absoluteFrom f)")
      case (Inl err)
      with Inr False show ?thesis by (simp add: contentPipeline_def Let_def)
    next
      case (Inr content)
      define r where "r = (case pp_transform pat of None \<Rightarrow> Inr content
                           | Some t \<Rightarrow> t content (absoluteFrom f))"
      define out where "out = (case r of
          Inl err \<Rightarrow> Inl err
        | Inr content' \<Rightarrow>
            (case interpolateTemplate c pat f content' of
               Inl err \<Rightarrow> Inl err
             | Inr to1 \<Rightarrow>
                 (case applyTransformPath c pat f to1 of
                    Inl err \<Rightarrow> Inl err
                  | Inr to2 \<Rightarrow> Inr (Resolved stats to2 content'))))"
      have tc: "\<exists>g2. transformContent c pat f content g1 = (r, g2)" for g1
        using assms by (auto simp: transformContent_def callTransform_def r_def split: option.splits)
      have "fst (contentPipeline c pat f g0) = out" for g0
      proof -
        let ?g1 = "if pp_fromType pat = ''glob''
                   then g0\<lparr>fileDeps := insert (absoluteFrom f) (fileDeps g0)\<rparr> else g0"
        from tc [of ?g1] obtain g2 where "transformContent c pat f content ?g1 = (r, g2)" ..
        with \<open>getStats c pat f = Inr stats\<close> False Inr show ?thesis
          by (simp add: contentPipeline_def Let_def out_def split: sum.splits)
      qed
      then show ?thesis by simp
    qed
  qed
qed

text \<open>
  A call of \<open>postProcessPattern\<close> that runs without giving up its turn is the pass
  of its steps.
\<close>

lemma stepsOf_run:
  "runPass c (stepsOf c pat f g) g = snd (postProcessPattern c pat f g)"
proof -
  obtain r g' where cp: "contentPipeline c pat f g = (r, g')"
    by (cases "contentPipeline c pat f g")
  from contentPipeline_frame [OF cp]
  have "g'\<lparr>compilation_assets := compilation_assets g, written := written g,
            copyUnmodified := copyUnmodified g\<rparr> = g'"
    by simp
  with cp show ?thesis
    by (simp add: stepsOf_def postProcessPattern_def split: sum.splits resolution.splits)
qed

text \<open>
  Without a cached transform the write decision of a call is taken on the same
  destination, source path and hash whatever the state the call starts from.
\<close>

lemma stepsOf_uncached:
  assumes "pp_transform pat = None \<or> pp_cache pat = None"
  shows "decisionsOf c (stepsOf c pat f g) = decisionsOf c (stepsOf c pat f g')"
  using contentPipeline_uncached [OF assms, of c f g g'] by (simp add: stepsOf_def)






subsection \<open>The examples\<close>

lemma demo_post_a:
  assumes "absoluteFrom f = ''/proj/a.txt''"
  shows "postProcessPattern demo_collab (demo_pattern (append_mark suffix) None) f g =
           (None, writeDecision demo_collab f \<lparr> isDirectory = False, stat_size = 3, mtime = 1 \<rparr>
                    (webpackTo f) (''abc'' @ suffix)
                    (g\<lparr>transform_calls := transform_calls g @ [(''abc'', ''/proj/a.txt'')]\<rparr>))"
  by (simp add: postProcessPattern_def demo_pipeline_a [OF assms])

lemma demo_post_b:
  assumes "absoluteFrom f = ''/proj/b.txt''"
  shows "postProcessPattern demo_collab (demo_pattern (append_mark suffix) None) f g =
           (None, writeDecision demo_collab f \<lparr> isDirectory = False, stat_size = 3, mtime = 1 \<rparr>
                    (webpackTo f) (''xyz'' @ suffix)
                    (g\<lparr>transform_calls := transform_calls g @ [(''xyz'', ''/proj/b.txt'')]\<rparr>))"
  by (simp add: postProcessPattern_def demo_pipeline_b [OF assms])

lemma demo_collab_fields:
  "getHashDigest demo_collab content = CHR ''#'' # content"
  "normalizePath demo_collab p = p"
  by (simp_all add: demo_collab_def)

lemmas demo_run_simps = demo_post_a demo_post_b writeDecision_def historyHas_def demo_collab_fields
  demo_file_def demo_file_b_def demo_globalRef_def Let_def

lemma conflicting_first_pass:
  "conflicting_pass demo_globalRef =
     demo_globalRef
       \<lparr>compilation_assets := [''a.txt'' \<mapsto> \<lparr> p_size = 3, p_source = ''abc1'' \<rparr>],
        written := [''a.txt'' \<mapsto> [''/proj/a.txt'' \<mapsto> ''#abc2'']],
        transform_calls := [(''abc'', ''/proj/a.txt''), (''abc'', ''/proj/a.txt'')]\<rparr>"
  by (simp add: conflicting_pass_def demo_run_simps)


lemma twin_cache_fields:
  "cacheDir_resolved demo_collab (g\<lparr>cacheDir := Some ''/proj/node_modules/.cache/copy-webpack-plugin''\<rparr>)
     = ''/proj/node_modules/.cache/copy-webpack-plugin''"
  "cacheDir_resolved demo_collab demo_globalRef = ''/proj/node_modules/.cache/copy-webpack-plugin''"
  "cacheKey_of demo_collab twin_pattern content = content"
  "pp_transform twin_pattern = Some append_path"
  "pp_cache twin_pattern = Some None"
  by (simp_all add: cacheDir_resolved_def or_else_def demo_collab_def demo_globalRef_def
      cacheKey_of_def twin_pattern_def demo_pattern_def)

lemma twin_steps:
  "twin_lookup_a = (None, demo_globalRef\<lparr>cacheDir := Some ''/proj/node_modules/.cache/copy-webpack-plugin''\<rparr>)"
  "twin_lookup_c = (None, demo_globalRef\<lparr>cacheDir := Some ''/proj/node_modules/.cache/copy-webpack-plugin''\<rparr>)"
  "twin_miss_a =
     (Inr ''abc/proj/a.txt'',
      demo_globalRef\<lparr>cacheDir := Some ''/proj/node_modules/.cache/copy-webpack-plugin'',
        cacache_store := [(''/proj/node_modules/.cache/copy-webpack-plugin'', ''abc'') \<mapsto> ''abc/proj/a.txt''],
        transform_calls := [(''abc'', ''/proj/a.txt'')]\<rparr>)"
  "twin_miss_c =
     (Inr ''abc/proj/c.txt'',
      demo_globalRef\<lparr>cacheDir := Some ''/proj/node_modules/.cache/copy-webpack-plugin'',
        cacache_store := [(''/proj/node_modules/.cache/copy-webpack-plugin'', ''abc'') \<mapsto> ''abc/proj/c.txt''],
        transform_calls := [(''abc'', ''/proj/a.txt''), (''abc'', ''/proj/c.txt'')]\<rparr>)"
proof -
  show a: "twin_lookup_a = (None, demo_globalRef\<lparr>cacheDir := Some ''/proj/node_modules/.cache/copy-webpack-plugin''\<rparr>)"
    by (simp add: twin_lookup_a_def cacheGet_def Let_def twin_cache_fields)
       (simp add: demo_globalRef_def)
  show c: "twin_lookup_c = (None, demo_globalRef\<lparr>cacheDir := Some ''/proj/node_modules/.cache/copy-webpack-plugin''\<rparr>)"
    by (simp add: twin_lookup_c_def a cacheGet_def Let_def twin_cache_fields)
       (simp add: demo_globalRef_def)
  show ma: "twin_miss_a =
     (Inr ''abc/proj/a.txt'',
      demo_globalRef\<lparr>cacheDir := Some ''/proj/node_modules/.cache/copy-webpack-plugin'',
        cacache_store := [(''/proj/node_modules/.cache/copy-webpack-plugin'', ''abc'') \<mapsto> ''abc/proj/a.txt''],
        transform_calls := [(''abc'', ''/proj/a.txt'')]\<rparr>)"
    by (simp add: twin_miss_a_def c onCacheMiss_def Let_def twin_cache_fields callTransform_def
        append_path_def demo_file_def)
       (simp add: demo_globalRef_def demo_collab_def)
  show "twin_miss_c =
     (Inr ''abc/proj/c.txt'',
      demo_globalRef\<lparr>cacheDir := Some ''/proj/node_modules/.cache/copy-webpack-plugin'',
        cacache_store := [(''/proj/node_modules/.cache/copy-webpack-plugin'', ''abc'') \<mapsto> ''abc/proj/c.txt''],
        transform_calls := [(''abc'', ''/proj/a.txt''), (''abc'', ''/proj/c.txt'')]\<rparr>)"
    by (simp add: twin_miss_c_def ma onCacheMiss_def Let_def callTransform_def
        append_path_def demo_file_c_def)
       (simp add: demo_globalRef_def demo_collab_def cacheDir_resolved_def or_else_def
          cacheKey_of_def twin_pattern_def demo_pattern_def)
qed


lemma twin_pass_run:
  "runPass demo_collab twin_pass demo_globalRef = twin_first_pass"
  "decisionsOf demo_collab twin_pass =
     [(''a.txt'', ''/proj/a.txt'', ''#abc/proj/a.txt''), (''c.txt'', ''/proj/c.txt'', ''#abc/proj/c.txt'')]"
proof -
  have 1: "snd (cacheGet demo_collab twin_pattern ''abc'' demo_globalRef) = snd twin_lookup_a"
    by (simp add: twin_lookup_a_def)
  have 2: "snd (cacheGet demo_collab twin_pattern ''abc'' (snd twin_lookup_a)) = snd twin_lookup_c"
    by (simp add: twin_lookup_c_def)
  have 3: "snd (onCacheMiss demo_collab twin_pattern append_path demo_file ''abc'' (snd twin_lookup_c))
             = snd twin_miss_a"
    by (simp add: twin_miss_a_def)
  have 4: "snd (onCacheMiss demo_collab twin_pattern append_path demo_file_c ''abc'' (snd twin_miss_a))
             = snd twin_miss_c"
    by (simp add: twin_miss_c_def)
  have f: "(snd twin_lookup_a)\<lparr>compilation_assets := compilation_assets demo_globalRef,
               written := written demo_globalRef, copyUnmodified := copyUnmodified demo_globalRef\<rparr>
             = snd twin_lookup_a"
    "(snd twin_lookup_c)\<lparr>compilation_assets := compilation_assets (snd twin_lookup_a),
               written := written (snd twin_lookup_a), copyUnmodified := copyUnmodified (snd twin_lookup_a)\<rparr>
             = snd twin_lookup_c"
    "(snd twin_miss_a)\<lparr>compilation_assets := compilation_assets (snd twin_lookup_c),
               written := written (snd twin_lookup_c), copyUnmodified := copyUnmodified (snd twin_lookup_c)\<rparr>
             = snd twin_miss_a"
    "(snd twin_miss_c)\<lparr>compilation_assets := compilation_assets (snd twin_miss_a),
               written := written (snd twin_miss_a), copyUnmodified := copyUnmodified (snd twin_miss_a)\<rparr>
             = snd twin_miss_c"
    by (simp_all add: twin_steps demo_globalRef_def)
  show "runPass demo_collab twin_pass demo_globalRef = twin_first_pass"
    by (simp add: twin_pass_def 1 2 3 4 f twin_first_pass_def)
  show "decisionsOf demo_collab twin_pass =
     [(''a.txt'', ''/proj/a.txt'', ''#abc/proj/a.txt''), (''c.txt'', ''/proj/c.txt'', ''#abc/proj/c.txt'')]"
    by (simp add: twin_pass_def demo_collab_fields demo_file_def demo_file_c_def)
qed





end
